theory Spec2Isabelle
  imports Main "HOL-Library.Word"
begin

section \<open>JavaScript values and strings\<close>

text \<open>
  Strings are lists of characters with code points below 256; \<open>undefined\<close> is
  \<open>None\<close> of an option type. A JSON scalar is a \<open>jsval\<close>.
\<close>

type_synonym byte = "8 word"

datatype jsval = JStr string | JNum int | JBool bool | JNull

text \<open>Decimal digits of a number, as \<open>String(n)\<close> prints an integer.\<close>

fun show_nat :: "nat \<Rightarrow> string" where
  "show_nat n =
     (if n < 10 then [''0123456789'' ! n]
      else show_nat (n div 10) @ [''0123456789'' ! (n mod 10)])"

declare show_nat.simps [simp del]

definition show_int :: "int \<Rightarrow> string" where
  "show_int i = (if i < 0 then CHR ''-'' # show_nat (nat (- i)) else show_nat (nat i))"

text \<open>Truthiness of a value that may be \<open>undefined\<close>.\<close>

fun truthy :: "jsval option \<Rightarrow> bool" where
  "truthy None = False"
| "truthy (Some (JStr s)) = (s \<noteq> [])"
| "truthy (Some (JNum n)) = (n \<noteq> 0)"
| "truthy (Some (JBool b)) = b"
| "truthy (Some JNull) = False"

text \<open>Truthiness of an optional string field: \<open>undefined\<close> and \<open>""\<close> are falsy.\<close>

fun truthy_str :: "string option \<Rightarrow> bool" where
  "truthy_str None = False"
| "truthy_str (Some s) = (s \<noteq> [])"

text \<open>The string a template literal \<open>`${v}`\<close> inserts.\<close>

fun template :: "jsval option \<Rightarrow> string" where
  "template None = ''undefined''"
| "template (Some (JStr s)) = s"
| "template (Some (JNum n)) = show_int n"
| "template (Some (JBool b)) = (if b then ''true'' else ''false'')"
| "template (Some JNull) = ''null''"

text \<open>
  \<open>String.prototype.trim\<close>: the white space and line terminator characters below
  code point 256 are removed from both ends.
\<close>

definition is_space :: "char \<Rightarrow> bool" where
  "is_space c = (c \<in> set [CHR 0x09, CHR 0x0A, CHR 0x0B, CHR 0x0C, CHR 0x0D, CHR 0x20, CHR 0xA0])"

definition trim :: "string \<Rightarrow> string" where
  "trim s = rev (dropWhile is_space (rev (dropWhile is_space s)))"

text \<open>The guard \<open>!x || x.trim().length === 0\<close>, on a string and on an optional string.\<close>

definition blank :: "string \<Rightarrow> bool" where
  "blank s = (s = [] \<or> length (trim s) = 0)"

definition falsy_or_blank :: "string option \<Rightarrow> bool" where
  "falsy_or_blank x = (case x of None \<Rightarrow> True | Some s \<Rightarrow> blank s)"

text \<open>\<open>Array.prototype.join\<close>.\<close>

fun join :: "string \<Rightarrow> string list \<Rightarrow> string" where
  "join sep [] = []"
| "join sep [x] = x"
| "join sep (x # y # ys) = x @ sep @ join sep (y # ys)"

text \<open>\<open>String.prototype.replace\<close> with a global one-character pattern.\<close>

definition replace_all :: "char \<Rightarrow> string \<Rightarrow> string \<Rightarrow> string" where
  "replace_all c by s = concat (map (\<lambda>x. if x = c then by else [x]) s)"

text \<open>\<open>TextEncoder.encode\<close>: UTF-8, two bytes for a code point from 128 to 255.\<close>

definition utf8_char :: "char \<Rightarrow> byte list" where
  "utf8_char c =
     (let n = (of_char c :: nat)
      in if n < 128 then [of_nat n] else [of_nat (192 + n div 64), of_nat (128 + n mod 64)])"

definition utf8_encode :: "string \<Rightarrow> byte list" where
  "utf8_encode s = concat (map utf8_char s)"

section \<open>Errors\<close>

text \<open>
  The exception classes keep their constructor arguments in the order of the call.
  \<open>AsgardeoAuthException\<close> has code, file, method, message, description and a last
  argument; the description of \<open>decodeIDToken\<close> is the caught error itself.
  \<open>AsgardeoAuthNetworkException\<close> has code, file, method, message, description and
  the caught error, whose \<open>code\<close>, \<open>message\<close>, \<open>response.status\<close> and
  \<open>response.data\<close> its last four arguments read.
\<close>

datatype js_error =
    TypeError string
  | SyntaxError string
  | AxiosError "string option" string "(int \<times> string) option"
  | AsgardeoAuthException string string string "string option" exn_arg exn_arg
  | AsgardeoAuthNetworkException string string string string string js_error
and exn_arg = Undefined | Text string | Caught js_error

section \<open>Crypto utilities (crypto-utils.ts)\<close>

text \<open>
  The library call \<open>base64url.encode\<close>: RFC 4648 base64 over the URL-safe alphabet,
  without padding.
\<close>

definition b64url_alphabet :: string where
  "b64url_alphabet = ''ABCDEFGHIJKLMNOPQRSTUVWXYZabcdefghijklmnopqrstuvwxyz0123456789-_''"

definition sextet :: "nat \<Rightarrow> char" where
  "sextet n = b64url_alphabet ! (n mod 64)"

fun base64url_encode :: "byte list \<Rightarrow> string" where
  "base64url_encode (a # b # c # rest) =
     (let n = unat a * 65536 + unat b * 256 + unat c
      in [sextet (n div 262144), sextet (n div 4096), sextet (n div 64), sextet n])
     @ base64url_encode rest"
| "base64url_encode [a, b] =
     (let n = unat a * 1024 + unat b * 4
      in [sextet (n div 4096), sextet (n div 64), sextet n])"
| "base64url_encode [a] =
     (let n = unat a * 16 in [sextet (n div 64), sextet n])"
| "base64url_encode [] = []"

text \<open>The argument of \<open>base64URLEncode\<close> is a \<open>Buffer\<close> or a string.\<close>

datatype buffer_or_string = Buffer "byte list" | Str string

fun buffer_bytes :: "buffer_or_string \<Rightarrow> byte list" where
  "buffer_bytes (Buffer bs) = bs"
| "buffer_bytes (Str s) = utf8_encode s"

definition base64URLEncode :: "buffer_or_string \<Rightarrow> string" where
  "base64URLEncode v =
     replace_all CHR ''='' []
       (replace_all CHR ''/'' ''_''
         (replace_all CHR ''+'' ''-'' (base64url_encode (buffer_bytes v))))"

text \<open>
  The random sources of the three runtime environments: what each returns when asked
  for \<open>n\<close> bytes at this call. \<open>WordArray_random\<close> is the word array's
  \<open>toString()\<close>.
\<close>

record entropy =
  nodeRandomBytes :: "nat \<Rightarrow> byte list"
  randombytes :: "nat \<Rightarrow> byte list"
  WordArray_random :: "nat \<Rightarrow> string"

datatype RuntimeEnvironments = Node | Browser | ReactNative

text \<open>\<open>None\<close> is any \<open>env\<close> that is none of the three constants, \<open>undefined\<close> too.\<close>

fun getCodeVerifier :: "entropy \<Rightarrow> RuntimeEnvironments option \<Rightarrow> string" where
  "getCodeVerifier ent (Some Node) = base64URLEncode (Buffer (nodeRandomBytes ent 32))"
| "getCodeVerifier ent (Some Browser) = base64URLEncode (Buffer (randombytes ent 32))"
| "getCodeVerifier ent (Some ReactNative) = base64URLEncode (Str (WordArray_random ent 32))"
| "getCodeVerifier ent None = base64URLEncode (Buffer (randombytes ent 32))"

text \<open>The hash function of \<open>fast-sha256\<close> is a parameter.\<close>

definition getCodeChallenge :: "(byte list \<Rightarrow> byte list) \<Rightarrow> string \<Rightarrow> string" where
  "getCodeChallenge sha256 verifier = base64URLEncode (Buffer (sha256 (utf8_encode verifier)))"

text \<open>
  \<open>decodeIDToken\<close>: the argument of \<open>base64url.decode\<close> is the second element
  of the split, \<open>undefined\<close> when the token has no dot. The library begins with
  \<open>toString\<close> on its argument, which throws a \<open>TypeError\<close> on \<open>undefined\<close>; on a
  string it never throws (\<open>Buffer.from\<close> skips the characters that are not of the
  alphabet), so the decoder is a parameter from strings to strings. \<open>JSON.parse\<close> is
  a parameter that returns a value or throws. Everything runs inside the \<open>try\<close>, the
  \<open>split\<close> of an \<open>undefined\<close> token too.
\<close>

fun split_on :: "char \<Rightarrow> string \<Rightarrow> string list" where
  "split_on sep [] = [[]]"
| "split_on sep (c # cs) =
     (if c = sep then [] # split_on sep cs
      else (case split_on sep cs of x # xs \<Rightarrow> (c # x) # xs | [] \<Rightarrow> [[c]]))"

definition element :: "'a list \<Rightarrow> nat \<Rightarrow> 'a option" where
  "element xs i = (if i < length xs then Some (xs ! i) else None)"

definition decodeIDToken ::
  "(string \<Rightarrow> string) \<Rightarrow> (string \<Rightarrow> js_error + 'j) \<Rightarrow>
   string option \<Rightarrow> js_error + 'j" where
  "decodeIDToken base64url_decode JSON_parse idToken =
     (case (case idToken of
              None \<Rightarrow> Inl (TypeError ''Cannot read properties of undefined (reading split)'')
            | Some t \<Rightarrow>
                (case element (split_on CHR ''.'' t) 1 of
                   None \<Rightarrow>
                     Inl (TypeError ''Cannot read properties of undefined (reading toString)'')
                 | Some segment \<Rightarrow> JSON_parse (base64url_decode segment))) of
        Inr payload \<Rightarrow> Inr payload
      | Inl error \<Rightarrow>
          Inl (AsgardeoAuthException ''CRYPTO_UTIL-DIT-IV01'' ''crypto-utils'' ''decodeIDToken''
                 (Some ''Decoding ID token failed.'') (Caught error) Undefined))"

section \<open>The URL class of the platform\<close>

text \<open>
  A parsed URL: the serialisation of everything before the query, the list of the
  query's name-value pairs, and the fragment with its \<open>#\<close>. Parsing is a parameter
  (\<open>None\<close> when the constructor throws); \<open>searchParams.append\<close> adds a pair at the
  end and \<open>searchParams.get\<close> finds the first pair of a name; \<open>toString\<close> writes
  the list with the \<open>application/x-www-form-urlencoded\<close> serialiser, which leaves
  letters, digits and \<open>*-._\<close> as they are, writes a space as \<open>+\<close> and every
  other byte of the UTF-8 encoding as \<open>%XX\<close>.
\<close>

record URL =
  url_base :: string
  searchParams :: "(string \<times> string) list"
  url_fragment :: string

definition searchParams_append :: "string \<Rightarrow> string \<Rightarrow> URL \<Rightarrow> URL" where
  "searchParams_append name v u = u\<lparr>searchParams := searchParams u @ [(name, v)]\<rparr>"

definition searchParams_get :: "string \<Rightarrow> URL \<Rightarrow> string option" where
  "searchParams_get name u = map_of (searchParams u) name"

definition form_unreserved :: string where
  "form_unreserved = ''ABCDEFGHIJKLMNOPQRSTUVWXYZabcdefghijklmnopqrstuvwxyz0123456789*-._''"

definition hex_digit :: "nat \<Rightarrow> char" where
  "hex_digit n = ''0123456789ABCDEF'' ! (n mod 16)"

definition percent_byte :: "byte \<Rightarrow> string" where
  "percent_byte b = [CHR ''%'', hex_digit (unat b div 16), hex_digit (unat b)]"

definition form_encode_char :: "char \<Rightarrow> string" where
  "form_encode_char c =
     (if c = CHR '' '' then ''+''
      else if c \<in> set form_unreserved then [c]
      else concat (map percent_byte (utf8_char c)))"

definition form_encode :: "string \<Rightarrow> string" where
  "form_encode s = concat (map form_encode_char s)"

definition form_serialize :: "(string \<times> string) list \<Rightarrow> string" where
  "form_serialize ps = join ''&'' (map (\<lambda>(n, v). form_encode n @ ''='' @ form_encode v) ps)"

definition URL_toString :: "URL \<Rightarrow> string" where
  "URL_toString u =
     url_base u
     @ (if searchParams u = [] then [] else ''?'' @ form_serialize (searchParams u))
     @ url_fragment u"

text \<open>The library functions the engine is given.\<close>

record platform =
  sha256 :: "byte list \<Rightarrow> byte list"
  new_URL :: "string \<Rightarrow> URL option"

section \<open>Configuration, data layer and transport\<close>

record AuthClientConfig =
  clientID :: string
  clientSecret :: "string option"
  signInRedirectURL :: string
  signOutRedirectURL :: "string option"
  scope :: "string list option"
  responseMode :: "string option"
  prompt :: "string option"
  enablePKCE :: bool
  sendCookiesInRequests :: bool
  certificate :: "string option"
  baseUrl :: string
  endpoints :: "string \<rightharpoonup> string"

text \<open>
  What one data layer holds. \<open>configShared\<close> says whether \<open>getConfigData\<close> hands
  out the stored object itself, so that a mutation by the caller is seen by later reads,
  or a copy.
\<close>

record DataLayer =
  configData :: AuthClientConfig
  configShared :: bool
  oidcProviderMetaData :: "string \<rightharpoonup> string"
  sessionData :: "string \<rightharpoonup> jsval"
  temporaryData :: "string \<rightharpoonup> jsval"

text \<open>
  The transport client (axios-https-client.ts): the data layer it was constructed with,
  the certificate of its HTTPS agent when one was created, and the \<open>withCredentials\<close>
  default of its axios instance.
\<close>

record HttpsClient =
  client_dataLayer :: nat
  httpsAgent :: "string option"
  axios_withCredentials :: bool

record request =
  req_method :: string
  req_url :: string
  req_data :: "string option"
  req_headers :: "(string \<times> string) list"
  req_withCredentials :: bool
  req_client :: HttpsClient

datatype 'd response = Response (status: int) (data: 'd)

datatype 'd outcome = Resolved "'d response" | Rejected js_error

text \<open>
  The process: the data layers by identity, the static field
  \<open>HttpsClient.httpsClient\<close>, and the requests issued so far, oldest first.
\<close>

record world =
  dataLayers :: "nat \<Rightarrow> DataLayer"
  httpsClient :: "HttpsClient option"
  network :: "request list"

subsection \<open>Constants and the data layer contract\<close>

text \<open>
  Modelled from the spec: the constants of \<open>../constants\<close>, which is not among the
  sources. The spec names the mandatory scope \<open>openid\<close> and the stored fields
  \<open>pkce_code_verifier\<close>, \<open>op_config_initiated\<close>, \<open>session_state\<close> and
  \<open>authorization_endpoint\<close>. It gives no value for the sign-out success marker,
  which the functions that use it take as a parameter.
\<close>

definition OIDC_SCOPE :: string where
  "OIDC_SCOPE = ''openid''"

definition PKCE_CODE_VERIFIER :: string where
  "PKCE_CODE_VERIFIER = ''pkce_code_verifier''"


definition SESSION_STATE :: string where
  "SESSION_STATE = ''session_state''"

definition AUTHORIZATION_ENDPOINT :: string where
  "AUTHORIZATION_ENDPOINT = ''authorization_endpoint''"

text \<open>
  Modelled from the spec: the data layer of \<open>../data\<close>, which is not among the
  sources, by its contract: a key-value store per identity with read-after-write. Its
  method \<open>getOIDCProviderMetaData\<close> is \<open>getOIDCProviderMetaData_stored\<close> here, the
  name being that of a method of the core as well.
\<close>

definition update_layer :: "nat \<Rightarrow> (DataLayer \<Rightarrow> DataLayer) \<Rightarrow> world \<Rightarrow> world" where
  "update_layer dl f w = w\<lparr>dataLayers := (dataLayers w)(dl := f (dataLayers w dl))\<rparr>"

definition getConfigData :: "nat \<Rightarrow> world \<Rightarrow> AuthClientConfig" where
  "getConfigData dl w = configData (dataLayers w dl)"

definition getOIDCProviderMetaData_stored :: "nat \<Rightarrow> world \<Rightarrow> (string \<rightharpoonup> string)" where
  "getOIDCProviderMetaData_stored dl w = oidcProviderMetaData (dataLayers w dl)"

definition getOIDCProviderMetaDataParameter :: "nat \<Rightarrow> string \<Rightarrow> world \<Rightarrow> string option" where
  "getOIDCProviderMetaDataParameter dl name w = oidcProviderMetaData (dataLayers w dl) name"


definition getSessionData :: "nat \<Rightarrow> world \<Rightarrow> (string \<rightharpoonup> jsval)" where
  "getSessionData dl w = sessionData (dataLayers w dl)"

definition setSessionData :: "nat \<Rightarrow> (string \<rightharpoonup> jsval) \<Rightarrow> world \<Rightarrow> world" where
  "setSessionData dl m w = update_layer dl (\<lambda>d. d\<lparr>sessionData := m\<rparr>) w"

definition setSessionDataParameter :: "nat \<Rightarrow> string \<Rightarrow> jsval \<Rightarrow> world \<Rightarrow> world" where
  "setSessionDataParameter dl key v w =
     update_layer dl (\<lambda>d. d\<lparr>sessionData := (sessionData d)(key \<mapsto> v)\<rparr>) w"

definition getTemporaryDataParameter :: "nat \<Rightarrow> string \<Rightarrow> world \<Rightarrow> jsval option" where
  "getTemporaryDataParameter dl key w = temporaryData (dataLayers w dl) key"

definition setTemporaryDataParameter :: "nat \<Rightarrow> string \<Rightarrow> jsval \<Rightarrow> world \<Rightarrow> world" where
  "setTemporaryDataParameter dl key v w =
     update_layer dl (\<lambda>d. d\<lparr>temporaryData := (temporaryData d)(key \<mapsto> v)\<rparr>) w"

definition removeTemporaryDataParameter :: "nat \<Rightarrow> string \<Rightarrow> world \<Rightarrow> world" where
  "removeTemporaryDataParameter dl key w =
     update_layer dl (\<lambda>d. d\<lparr>temporaryData := (temporaryData d)(key := None)\<rparr>) w"

text \<open>
  \<open>configData.scope.push(OIDC_SCOPE)\<close> changes the object that \<open>getConfigData\<close>
  returned: the stored configuration changes with it when the data layer shares it.
\<close>

definition push_scope :: "nat \<Rightarrow> string list \<Rightarrow> world \<Rightarrow> world" where
  "push_scope dl sc w =
     (if configShared (dataLayers w dl)
      then update_layer dl (\<lambda>d. d\<lparr>configData := (configData d)\<lparr>scope := Some sc\<rparr>\<rparr>) w
      else w)"

subsection \<open>The transport client (axios-https-client.ts)\<close>

definition getInstance :: "nat \<Rightarrow> world \<Rightarrow> HttpsClient \<times> world" where
  "getInstance dataLayer w =
     (case httpsClient w of
        Some c \<Rightarrow> (c, w)
      | None \<Rightarrow>
          (let cfg = getConfigData dataLayer w;
               c = (if truthy_str (certificate cfg)
                    then \<lparr>client_dataLayer = dataLayer, httpsAgent = certificate cfg,
                          axios_withCredentials = sendCookiesInRequests cfg\<rparr>
                    else \<lparr>client_dataLayer = dataLayer, httpsAgent = None,
                          axios_withCredentials = sendCookiesInRequests cfg\<rparr>)
           in (c, w\<lparr>httpsClient := Some c\<rparr>)))"

subsection \<open>Promises\<close>

text \<open>
  A settled promise is its value or its rejection, with the world it leaves.
  \<open>p.then(f)\<close> runs \<open>f\<close> on a value and passes a rejection on; \<open>p.catch(g)\<close>
  runs \<open>g\<close> on a rejection, that of a \<open>then\<close> before it included.
\<close>

type_synonym 'a promise = "(js_error + 'a) \<times> world"

definition promise_then :: "'a promise \<Rightarrow> ('a \<Rightarrow> world \<Rightarrow> 'b promise) \<Rightarrow> 'b promise" where
  "promise_then p f = (case p of (Inl e, w) \<Rightarrow> (Inl e, w) | (Inr v, w) \<Rightarrow> f v w)"

definition promise_catch :: "'a promise \<Rightarrow> (js_error \<Rightarrow> world \<Rightarrow> 'a promise) \<Rightarrow> 'a promise" where
  "promise_catch p g = (case p of (Inl e, w) \<Rightarrow> g e w | (Inr v, w) \<Rightarrow> (Inr v, w))"

text \<open>
  A request through the client's axios instance: it is recorded, and the network
  decides whether it resolves with a response or rejects.
\<close>

definition issue :: "(request \<Rightarrow> 'd outcome) \<Rightarrow> request \<Rightarrow> world \<Rightarrow> 'd response promise" where
  "issue net rq w =
     (case net rq of Resolved r \<Rightarrow> Inr r | Rejected e \<Rightarrow> Inl e, w\<lparr>network := network w @ [rq]\<rparr>)"

definition axios_post ::
  "(request \<Rightarrow> 'd outcome) \<Rightarrow> HttpsClient \<Rightarrow> string \<Rightarrow> string \<Rightarrow> (string \<times> string) list \<Rightarrow>
   bool \<Rightarrow> world \<Rightarrow> 'd response promise" where
  "axios_post net c url body headers withCredentials w =
     issue net \<lparr>req_method = ''POST'', req_url = url, req_data = Some body,
                req_headers = headers, req_withCredentials = withCredentials,
                req_client = c\<rparr> w"


subsection \<open>The authentication helper and utilities\<close>

text \<open>
  Modelled from the spec: \<open>AuthenticationUtils.getTokenRequestHeaders\<close>, which is not
  among the sources; token requests carry the form content type.
\<close>

definition getTokenRequestHeaders :: "(string \<times> string) list" where
  "getTokenRequestHeaders = [(''Content-Type'', ''application/x-www-form-urlencoded'')]"

text \<open>
  Modelled from the spec: \<open>AuthenticationHelper.handleTokenResponse\<close>, which is not
  among the sources. Session materialisation stores the response body verbatim as the
  new session data and returns it as the token result.
\<close>

definition handleTokenResponse ::
  "nat \<Rightarrow> (string \<rightharpoonup> jsval) response \<Rightarrow> world \<Rightarrow> (string \<rightharpoonup> jsval) promise" where
  "handleTokenResponse dl response w = (Inr (data response), setSessionData dl (data response) w)"

text \<open>
  Modelled from the spec: \<open>AuthenticationHelper.clearUserSessionData\<close>, which is not
  among the sources; it clears all session state.
\<close>

definition clearUserSessionData :: "nat \<Rightarrow> world \<Rightarrow> world" where
  "clearUserSessionData dl w = setSessionData dl Map.empty w"



definition resolveFallbackEndpoints ::
  "(string \<times> string) list \<Rightarrow> nat \<Rightarrow> world \<Rightarrow> (string \<rightharpoonup> string)" where
  "resolveFallbackEndpoints suffixes dl w =
     map_of (map (\<lambda>(name, suffix). (name, baseUrl (getConfigData dl w) @ suffix)) suffixes)"

text \<open>The present, non-blank value of an optional string, for the guards.\<close>

definition present :: "string option \<Rightarrow> string option" where
  "present x = (if falsy_or_blank x then None else x)"

section \<open>The authentication core\<close>

subsection \<open>getAuthorizationURL\<close>

text \<open>
  The loop over the caller's parameters: \<open>value != ""\<close> is the loose comparison, and
  \<open>value.toString()\<close> throws on \<open>null\<close>.
\<close>

fun loose_eq_empty :: "jsval \<Rightarrow> bool" where
  "loose_eq_empty (JStr s) = (s = [])"
| "loose_eq_empty (JNum n) = (n = 0)"
| "loose_eq_empty (JBool b) = (\<not> b)"
| "loose_eq_empty JNull = False"

fun value_toString :: "jsval \<Rightarrow> js_error + string" where
  "value_toString (JStr s) = Inr s"
| "value_toString (JNum n) = Inr (show_int n)"
| "value_toString (JBool b) = Inr (if b then ''true'' else ''false'')"
| "value_toString JNull = Inl (TypeError ''Cannot read properties of null (reading toString)'')"

fun append_customParams :: "(string \<times> jsval) list \<Rightarrow> URL \<Rightarrow> js_error + URL" where
  "append_customParams [] u = Inr u"
| "append_customParams ((key, v) # rest) u =
     (if key \<noteq> [] \<and> \<not> loose_eq_empty v
      then (case value_toString v of
              Inl e \<Rightarrow> Inl e
            | Inr s \<Rightarrow> append_customParams rest (searchParams_append key s u))
      else append_customParams rest u)"

text \<open>
  \<open>authorizeRequest\<close> is the URL object the function builds; the function returns
  its \<open>toString()\<close>. \<open>getCodeVerifier\<close> is called without its argument.
\<close>

definition authorizeRequest ::
  "platform \<Rightarrow> entropy \<Rightarrow> nat \<Rightarrow> (string \<times> jsval) list option \<Rightarrow> world \<Rightarrow> URL promise" where
  "authorizeRequest P ent dl config w =
     (let authorizeEndpoint = getOIDCProviderMetaDataParameter dl AUTHORIZATION_ENDPOINT w;
          cfg = getConfigData dl w
      in case present authorizeEndpoint of
           None \<Rightarrow>
             (Inl (AsgardeoAuthException ''AUTH_CORE-GAU-NF01'' ''authentication-core''
                     ''getAuthorizationURL'' (Some ''No authorization endpoint found.'')
                     (Text (''No authorization endpoint was found in the OIDC provider meta data from the well-known endpoint ''
                            @ ''or the authorization endpoint passed to the SDK is empty.''))
                     Undefined), w)
         | Some ep \<Rightarrow>
             (case new_URL P ep of
                None \<Rightarrow> (Inl (TypeError ''Invalid URL''), w)
              | Some u0 \<Rightarrow>
                  (let u1 = searchParams_append ''response_type'' ''code'' u0;
                       u2 = searchParams_append ''client_id'' (clientID cfg) u1;
                       (scope_str, w1) =
                         (case scope cfg of
                            Some sc \<Rightarrow>
                              if length sc > 0
                              then (if OIDC_SCOPE \<notin> set sc
                                    then (join '' '' (sc @ [OIDC_SCOPE]),
                                          push_scope dl (sc @ [OIDC_SCOPE]) w)
                                    else (join '' '' sc, w))
                              else (OIDC_SCOPE, w)
                          | None \<Rightarrow> (OIDC_SCOPE, w));
                       u3 = searchParams_append ''scope'' scope_str u2;
                       u4 = searchParams_append ''redirect_uri'' (signInRedirectURL cfg) u3;
                       u5 = (case responseMode cfg of
                               Some m \<Rightarrow>
                                 if m \<noteq> [] then searchParams_append ''response_mode'' m u4 else u4
                             | None \<Rightarrow> u4);
                       (u6, w2) =
                         (if enablePKCE cfg
                          then (let codeVerifier = getCodeVerifier ent None;
                                    codeChallenge = getCodeChallenge (sha256 P) codeVerifier;
                                    w' = setTemporaryDataParameter dl PKCE_CODE_VERIFIER
                                           (JStr codeVerifier) w1
                                in (searchParams_append ''code_challenge'' codeChallenge
                                      (searchParams_append ''code_challenge_method'' ''S256'' u5),
                                    w'))
                          else (u5, w1));
                       u7 = (case prompt cfg of
                               Some pr \<Rightarrow>
                                 if pr \<noteq> [] then searchParams_append ''prompt'' pr u6 else u6
                             | None \<Rightarrow> u6)
                   in case config of
                        None \<Rightarrow> (Inr u7, w2)
                      | Some customParams \<Rightarrow> (append_customParams customParams u7, w2))))"

definition getAuthorizationURL ::
  "platform \<Rightarrow> entropy \<Rightarrow> nat \<Rightarrow> (string \<times> jsval) list option \<Rightarrow> world \<Rightarrow> string promise" where
  "getAuthorizationURL P ent dl config w =
     promise_then (authorizeRequest P ent dl config w) (\<lambda>u w'. (Inr (URL_toString u), w'))"

text \<open>
  Successive calls on one context: each call has its own random bytes and its own
  caller parameters, and starts in the world the call before it left.
\<close>

fun getAuthorizationURLs ::
  "platform \<Rightarrow> nat \<Rightarrow> (entropy \<times> (string \<times> jsval) list option) list \<Rightarrow> world \<Rightarrow>
   (js_error + string) list \<times> world" where
  "getAuthorizationURLs P dl [] w = ([], w)"
| "getAuthorizationURLs P dl ((ent, config) # calls) w =
     (case getAuthorizationURL P ent dl config w of
        (r, w') \<Rightarrow>
          (case getAuthorizationURLs P dl calls w' of (rs, w'') \<Rightarrow> (r # rs, w'')))"

subsection \<open>requestAccessToken, refreshAccessToken, revokeAccessToken\<close>

definition requestAccessToken ::
  "(request \<Rightarrow> (string \<rightharpoonup> jsval) outcome) \<Rightarrow> nat \<Rightarrow> string \<Rightarrow> string \<Rightarrow> world \<Rightarrow>
   (string \<rightharpoonup> jsval) promise" where
  "requestAccessToken net dl authorizationCode sessionState w =
     (let tokenEndpoint = getOIDCProviderMetaData_stored dl w ''token_endpoint'';
          cfg = getConfigData dl w
      in case present tokenEndpoint of
           None \<Rightarrow>
             (Inl (AsgardeoAuthException ''AUTH_CORE-RAT1-NF01'' ''authentication-core''
                     ''requestAccessToken'' (Some ''Token endpoint not found.'')
                     (Text (''No token endpoint was found in the OIDC provider meta data returned by the well-known endpoint ''
                            @ ''or the token endpoint passed to the SDK is empty.''))
                     Undefined), w)
         | Some ep \<Rightarrow>
             (let w1 = (if sessionState \<noteq> []
                        then setSessionDataParameter dl SESSION_STATE (JStr sessionState) w
                        else w);
                  body = [''client_id='' @ clientID cfg]
                       @ (case present (clientSecret cfg) of
                            Some secret \<Rightarrow> [''client_secret='' @ secret]
                          | None \<Rightarrow> [])
                       @ [''code='' @ authorizationCode,
                          ''grant_type=authorization_code'',
                          ''redirect_uri='' @ signInRedirectURL cfg]
                       @ (if enablePKCE cfg
                          then [''code_verifier=''
                                @ template (getTemporaryDataParameter dl PKCE_CODE_VERIFIER w1)]
                          else []);
                  w2 = (if enablePKCE cfg
                        then removeTemporaryDataParameter dl PKCE_CODE_VERIFIER w1
                        else w1);
                  (c, w3) = getInstance dl w2
              in promise_catch
                   (promise_then
                      (axios_post net c ep (join ''&'' body) getTokenRequestHeaders
                         (sendCookiesInRequests cfg) w3)
                      (\<lambda>response w4.
                         promise_catch (handleTokenResponse dl response w4)
                           (\<lambda>error w5.
                              (Inl (AsgardeoAuthException ''AUTH_CORE-RAT1-ES02''
                                      ''authentication-core'' ''requestAccessToken'' None
                                      Undefined (Caught error)), w5))))
                   (\<lambda>error w6.
                      (Inl (AsgardeoAuthNetworkException ''AUTH_CORE-RAT1-NR03''
                              ''authentication-core'' ''requestAccessToken''
                              ''Requesting access token failed''
                              ''The request to get the access token from the server failed.''
                              error), w6))))"

definition refreshAccessToken ::
  "(request \<Rightarrow> (string \<rightharpoonup> jsval) outcome) \<Rightarrow> nat \<Rightarrow> world \<Rightarrow> (string \<rightharpoonup> jsval) promise" where
  "refreshAccessToken net dl w =
     (let tokenEndpoint = getOIDCProviderMetaData_stored dl w ''token_endpoint'';
          cfg = getConfigData dl w;
          session = getSessionData dl w
      in if \<not> truthy (session ''refresh_token'')
         then (Inl (AsgardeoAuthException ''AUTH_CORE-RAT2-NF01'' ''authentication-core''
                      ''refreshAccessToken'' (Some ''No refresh token found.'')
                      (Text (''There was no refresh token found. Asgardeo doesn't return a ''
                             @ ''refresh token if the refresh token grant is not enabled.''))
                      Undefined), w)
         else
           (case present tokenEndpoint of
              None \<Rightarrow>
                (Inl (AsgardeoAuthException ''AUTH_CORE-RAT2-NF02'' ''authentication-core''
                        ''refreshAccessToken'' (Some ''No refresh token endpoint found.'')
                        (Text (''No refresh token endpoint was in the OIDC provider meta data returned by the well-known ''
                               @ ''endpoint or the refresh token endpoint passed to the SDK is empty.''))
                        Undefined), w)
            | Some ep \<Rightarrow>
                (let body = [''client_id='' @ clientID cfg,
                             ''refresh_token='' @ template (session ''refresh_token''),
                             ''grant_type=refresh_token'']
                          @ (case present (clientSecret cfg) of
                               Some secret \<Rightarrow> [''client_secret='' @ secret]
                             | None \<Rightarrow> []);
                     (c, w1) = getInstance dl w
                 in promise_catch
                      (promise_then
                         (axios_post net c ep (join ''&'' body) getTokenRequestHeaders
                            (sendCookiesInRequests cfg) w1)
                         (\<lambda>response w2.
                            promise_catch (handleTokenResponse dl response w2)
                              (\<lambda>error w3.
                                 (Inl (AsgardeoAuthException ''AUTH_CORE-RAT2-ES03''
                                         ''authentication-core'' ''refreshAccessToken'' None
                                         Undefined (Caught error)), w3))))
                      (\<lambda>error w4.
                         (Inl (AsgardeoAuthNetworkException ''AUTH_CORE-RAT2-NR03''
                                 ''authentication-core'' ''refreshAccessToken''
                                 ''Refresh access token request failed.''
                                 ''The request to refresh the access token failed.''
                                 error), w4)))))"

definition revokeAccessToken ::
  "(request \<Rightarrow> 'd outcome) \<Rightarrow> nat \<Rightarrow> world \<Rightarrow> 'd response promise" where
  "revokeAccessToken net dl w =
     (let revokeTokenEndpoint = getOIDCProviderMetaData_stored dl w ''revocation_endpoint'';
          cfg = getConfigData dl w
      in case present revokeTokenEndpoint of
           None \<Rightarrow>
             (Inl (AsgardeoAuthException ''AUTH_CORE-RAT3-NF01'' ''authentication-core''
                     ''revokeAccessToken'' (Some ''No revoke access token endpoint found.'')
                     (Text (''No revoke access token endpoint was found in the OIDC provider meta data returned by ''
                            @ ''the well-known endpoint or the revoke access token endpoint passed to the SDK is empty.''))
                     Undefined), w)
         | Some ep \<Rightarrow>
             (let body = [''client_id='' @ clientID cfg,
                          ''token='' @ template (getSessionData dl w ''access_token''),
                          ''token_type_hint=access_token''];
                  (c, w1) = getInstance dl w
              in promise_catch
                   (promise_then
                      (axios_post net c ep (join ''&'' body) getTokenRequestHeaders
                         (sendCookiesInRequests cfg) w1)
                      (\<lambda>response w2.
                         if status response \<noteq> 200
                         then (Inl (AsgardeoAuthException ''AUTH_CORE-RAT3-NR02''
                                      ''authentication-core'' ''revokeAccessToken''
                                      (Some ''Invalid response status received for revoke access token request.'')
                                      (Text (''The request sent to revoke the access token returned ''
                                             @ show_int (status response)
                                             @ '' , which is invalid.''))
                                      Undefined), w2)
                         else (Inr response, clearUserSessionData dl w2)))
                   (\<lambda>error w3.
                      (Inl (AsgardeoAuthNetworkException ''AUTH_CORE-RAT3-NR03''
                              ''authentication-core'' ''revokeAccessToken''
                              ''The request to revoke access token failed.''
                              ''The request sent to revoke the access token failed.''
                              error), w3))))"

subsection \<open>getOIDCProviderMetaData\<close>


subsection \<open>getSignOutURL\<close>

text \<open>
  The sign-out success marker is the first parameter. \<open>??\<close> takes the sign-in
  redirect URL only when the sign-out redirect URL is \<open>undefined\<close>. A stored
  \<open>id_token\<close> that is truthy and not a string has no \<open>trim\<close>.
\<close>

definition getSignOutURL :: "string \<Rightarrow> nat \<Rightarrow> world \<Rightarrow> js_error + string" where
  "getSignOutURL SIGN_OUT_SUCCESS_PARAM dl w =
     (let logoutEndpoint = getOIDCProviderMetaData_stored dl w ''end_session_endpoint'';
          cfg = getConfigData dl w
      in case present logoutEndpoint of
           None \<Rightarrow>
             Inl (AsgardeoAuthException ''AUTH_CORE-GSOU-NF01'' ''authentication-core''
                    ''getSignOutURL'' (Some ''Sign-out endpoint not found.'')
                    (Text (''No sign-out endpoint was found in the OIDC provider meta data returned by the well-known endpoint ''
                           @ ''or the sign-out endpoint passed to the SDK is empty.''))
                    Undefined)
         | Some ep \<Rightarrow>
             (let idToken = getSessionData dl w ''id_token'';
                  no_id_token =
                    Inl (AsgardeoAuthException ''AUTH_CORE-GSOU-NF02'' ''authentication-core''
                           ''getSignOutURL'' (Some ''ID token not found.'')
                           (Text ''No ID token could be found. Either the session information is lost or you have not signed in.'')
                           Undefined)
              in case idToken of
                   Some (JStr t) \<Rightarrow>
                     if blank t then no_id_token
                     else
                       (let callbackURL = (case signOutRedirectURL cfg of
                                             Some u \<Rightarrow> u
                                           | None \<Rightarrow> signInRedirectURL cfg)
                        in if blank callbackURL
                           then Inl (AsgardeoAuthException ''AUTH_CORE-GSOU-NF03''
                                       ''authentication-core'' ''getSignOutURL''
                                       (Some ''No sign-out redirect URL found.'')
                                       (Text (''The sign-out redirect URL cannot be found or the URL passed to the SDK is empty. ''
                                              @ ''No sign-in redirect URL has been found either. ''))
                                       Undefined)
                           else Inr (ep @ ''?''
                                     @ ''id_token_hint='' @ t
                                     @ ''&post_logout_redirect_uri='' @ callbackURL @ ''&state=''
                                     @ SIGN_OUT_SUCCESS_PARAM))
                 | other \<Rightarrow>
                     if truthy other then Inl (TypeError ''idToken.trim is not a function'')
                     else no_id_token))"

section \<open>Vocabulary of the claims\<close>


text \<open>
  A transport client is configured from a configuration when its HTTPS agent trusts the
  configuration's certificate (and there is no agent when there is no certificate) and
  its cookie policy is the configuration's.
\<close>

definition configured_from :: "HttpsClient \<Rightarrow> AuthClientConfig \<Rightarrow> bool" where
  "configured_from c cfg =
     (httpsAgent c = (if truthy_str (certificate cfg) then certificate cfg else None)
      \<and> axios_withCredentials c = sendCookiesInRequests cfg)"

text \<open>The exception \<open>decodeIDToken\<close> throws, around the error it caught.\<close>

definition decoding_error :: "js_error \<Rightarrow> js_error" where
  "decoding_error cause =
     AsgardeoAuthException ''CRYPTO_UTIL-DIT-IV01'' ''crypto-utils'' ''decodeIDToken''
       (Some ''Decoding ID token failed.'') (Caught cause) Undefined"

text \<open>A text is valid base64url when all its characters are of the URL-safe alphabet.\<close>

definition valid_base64url :: "string \<Rightarrow> bool" where
  "valid_base64url s = list_all (\<lambda>c. c \<in> set b64url_alphabet) s"

text \<open>
  The value of the scope parameter for a configured scope list; an optional parameter,
  appended when its value is truthy; the world after the conditional push of the
  mandatory scope; the parameters that \<open>getAuthorizationURL\<close> appends itself, in
  order; and the world it leaves when the endpoint is there and parses: the scope
  possibly pushed, the verifier possibly stored.
\<close>

definition scope_value :: "string list option \<Rightarrow> string" where
  "scope_value sc =
     (case sc of
        None \<Rightarrow> OIDC_SCOPE
      | Some xs \<Rightarrow> if xs = [] then OIDC_SCOPE
                   else if OIDC_SCOPE \<in> set xs then join '' '' xs
                   else join '' '' (xs @ [OIDC_SCOPE]))"

definition opt_param :: "string \<Rightarrow> string option \<Rightarrow> (string \<times> string) list" where
  "opt_param name x = (case x of Some v \<Rightarrow> if v \<noteq> [] then [(name, v)] else [] | None \<Rightarrow> [])"

definition scope_pushed :: "nat \<Rightarrow> world \<Rightarrow> world" where
  "scope_pushed dl w =
     (case scope (configData (dataLayers w dl)) of
        Some sc \<Rightarrow>
          if sc \<noteq> [] \<and> OIDC_SCOPE \<notin> set sc then push_scope dl (sc @ [OIDC_SCOPE]) w else w
      | None \<Rightarrow> w)"

definition own_params :: "platform \<Rightarrow> entropy \<Rightarrow> AuthClientConfig \<Rightarrow> (string \<times> string) list" where
  "own_params P ent cfg =
     [(''response_type'', ''code''), (''client_id'', clientID cfg),
      (''scope'', scope_value (scope cfg)), (''redirect_uri'', signInRedirectURL cfg)]
     @ opt_param ''response_mode'' (responseMode cfg)
     @ (if enablePKCE cfg
        then [(''code_challenge_method'', ''S256''),
              (''code_challenge'', getCodeChallenge (sha256 P) (getCodeVerifier ent None))]
        else [])
     @ opt_param ''prompt'' (prompt cfg)"

definition stored_after :: "entropy \<Rightarrow> nat \<Rightarrow> world \<Rightarrow> world" where
  "stored_after ent dl w =
     (if enablePKCE (configData (dataLayers w dl))
      then setTemporaryDataParameter dl PKCE_CODE_VERIFIER (JStr (getCodeVerifier ent None))
             (scope_pushed dl w)
      else scope_pushed dl w)"

section \<open>Example worlds\<close>

text \<open>
  A context with data layer 0: PKCE enabled, scope \<open>["profile"]\<close>, all endpoints
  known, a stored access token and ID token, no transport client created yet.
\<close>

definition config0 :: AuthClientConfig where
  "config0 = \<lparr>clientID = ''client'', clientSecret = None,
     signInRedirectURL = ''https://app.example/in'', signOutRedirectURL = None,
     scope = Some [''profile''], responseMode = None, prompt = None, enablePKCE = True,
     sendCookiesInRequests = False, certificate = None, baseUrl = ''https://idp.example'',
     endpoints = Map.empty\<rparr>"

definition layer0 :: DataLayer where
  "layer0 = \<lparr>configData = config0, configShared = True,
     oidcProviderMetaData =
       [''authorization_endpoint'' \<mapsto> ''https://idp.example/oauth2/authorize'',
        ''token_endpoint'' \<mapsto> ''https://idp.example/oauth2/token'',
        ''revocation_endpoint'' \<mapsto> ''https://idp.example/oauth2/revoke'',
        ''end_session_endpoint'' \<mapsto> ''https://idp.example/oidc/logout''],
     sessionData = [''access_token'' \<mapsto> JStr ''T'', ''id_token'' \<mapsto> JStr ''ID''],
     temporaryData = Map.empty\<rparr>"

definition world0 :: world where
  "world0 = \<lparr>dataLayers = (\<lambda>_. layer0), httpsClient = None, network = []\<rparr>"

definition no_endpoints :: "world \<Rightarrow> world" where
  "no_endpoints w = update_layer 0 (\<lambda>d. d\<lparr>oidcProviderMetaData := Map.empty\<rparr>) w"

definition signed_out :: "world \<Rightarrow> world" where
  "signed_out w = update_layer 0 (\<lambda>d. d\<lparr>sessionData := Map.empty\<rparr>) w"

definition blank_redirects :: "world \<Rightarrow> world" where
  "blank_redirects w =
     update_layer 0 (\<lambda>d. d\<lparr>configData := (configData d)\<lparr>signOutRedirectURL := Some '' ''\<rparr>\<rparr>) w"

text \<open>A standard token response body, and a world with a stored code verifier.\<close>

definition token_body :: "string \<rightharpoonup> jsval" where
  "token_body = [''access_token'' \<mapsto> JStr ''A'', ''id_token'' \<mapsto> JStr ''ID'',
     ''token_type'' \<mapsto> JStr ''Bearer'', ''expires_in'' \<mapsto> JNum 3600,
     ''scope'' \<mapsto> JStr ''openid'']"

definition with_verifier :: "world \<Rightarrow> world" where
  "with_verifier w = setTemporaryDataParameter 0 PKCE_CODE_VERIFIER (JStr ''V'') w"




text \<open>A revocation endpoint that answers every request with status 204 and no body.\<close>

definition no_content :: "request \<Rightarrow> string outcome" where
  "no_content rq = Resolved (Response 204 [])"

text \<open>
  Two contexts in one process, data layers 0 and 1, with different certificates and
  cookie policies.
\<close>

definition two_contexts :: world where
  "two_contexts =
     \<lparr>dataLayers = (\<lambda>i. if i = 1
          then layer0\<lparr>configData := config0\<lparr>certificate := Some ''CA-B'',
                                                 sendCookiesInRequests := False\<rparr>\<rparr>
          else layer0\<lparr>configData := config0\<lparr>certificate := Some ''CA-A'',
                                                 sendCookiesInRequests := True\<rparr>\<rparr>),
      httpsClient = None, network = []\<rparr>"

text \<open>
  The decoder of the examples is \<open>base64url.decode\<close> as the library computes it on a
  segment of ASCII characters whose decoded bytes are below 128: \<open>-\<close> and \<open>_\<close> stand
  for \<open>+\<close> and \<open>/\<close>, decoding stops at the first \<open>=\<close>, a character of neither
  alphabet is skipped, four characters give three bytes (three give two, two give one,
  a single one gives none), and each byte is read as one character. So \<open>e30\<close> and
  \<open>e$30\<close> both decode to \<open>{}\<close>, \<open>eA\<close> to \<open>x\<close> and \<open>$$\<close> to the empty text.
\<close>

fun index_of :: "'a \<Rightarrow> 'a list \<Rightarrow> nat option" where
  "index_of x [] = None"
| "index_of x (y # ys) = (if x = y then Some 0 else map_option Suc (index_of x ys))"

definition unbase64 :: "char \<Rightarrow> nat option" where
  "unbase64 c =
     (if c = CHR ''+'' then Some 62 else if c = CHR ''/'' then Some 63
      else index_of c b64url_alphabet)"

fun sextets_bytes :: "nat list \<Rightarrow> byte list" where
  "sextets_bytes (a # b # c # d # rest) =
     [of_nat (a * 4 + b div 16), of_nat ((b mod 16) * 16 + c div 4),
      of_nat ((c mod 4) * 64 + d)] @ sextets_bytes rest"
| "sextets_bytes [a, b, c] = [of_nat (a * 4 + b div 16), of_nat ((b mod 16) * 16 + c div 4)]"
| "sextets_bytes [a, b] = [of_nat (a * 4 + b div 16)]"
| "sextets_bytes _ = []"

definition lenient_decode :: "string \<Rightarrow> string" where
  "lenient_decode s =
     map (\<lambda>b. char_of (unat b))
       (sextets_bytes (List.map_filter unbase64 (takeWhile (\<lambda>c. c \<noteq> CHR ''='') s)))"

text \<open>
  The parser of the examples: \<open>{}\<close> parses to the empty claim map, every other text
  of the examples (\<open>x\<close> and the empty text) is not JSON.
\<close>

definition parse_stub :: "string \<Rightarrow> js_error + (string \<times> jsval) list" where
  "parse_stub s = (if s = ''{}'' then Inr [] else Inl (SyntaxError ''Unexpected token''))"

text \<open>
  A platform for the examples: a URL parser that accepts an \<open>https\<close> URL without
  query and fragment, a stand-in for the hash function, and fixed random sources.
\<close>

definition simple_URL :: "string \<Rightarrow> URL option" where
  "simple_URL s =
     (if take 8 s = ''https://'' \<and> CHR ''?'' \<notin> set s \<and> CHR ''#'' \<notin> set s
      then Some \<lparr>url_base = s, searchParams = [], url_fragment = []\<rparr>
      else None)"

definition length_hash :: "byte list \<Rightarrow> byte list" where
  "length_hash bs = replicate 32 (of_nat (length bs))"

definition platform0 :: platform where
  "platform0 = \<lparr>sha256 = length_hash, new_URL = simple_URL\<rparr>"

definition entropy0 :: entropy where
  "entropy0 = \<lparr>nodeRandomBytes = (\<lambda>n. replicate n 1),
                randombytes = (\<lambda>n. replicate n 171),
                WordArray_random = (\<lambda>n. replicate (2 * n) CHR ''0'')\<rparr>"

text \<open>The URL that the example context gets from the example platform.\<close>

definition url0 :: string where
  "url0 = ''https://idp.example/oauth2/authorize?response_type=code&client_id=client&scope=profile+openid&redirect_uri=https%3A%2F%2Fapp.example%2Fin&code_challenge_method=S256&code_challenge=KysrKysrKysrKysrKysrKysrKysrKysrKysrKysrKys''"

text \<open>
  A context whose client ID, client secret and tokens contain \<open>&\<close> and \<open>=\<close>, a
  token endpoint that answers every request with the token response, and the URL that
  context gets.
\<close>

definition reserved_credentials :: "world \<Rightarrow> world" where
  "reserved_credentials w =
     update_layer 0
       (\<lambda>d. d\<lparr>configData := (configData d)\<lparr>clientID := ''a&b=c'', clientSecret := Some ''s=1&t''\<rparr>,
               sessionData := [''access_token'' \<mapsto> JStr ''T&x=1'',
                               ''refresh_token'' \<mapsto> JStr ''R=2&y'',
                               ''id_token'' \<mapsto> JStr ''ID'']\<rparr>) w"

definition world1 :: world where
  "world1 = reserved_credentials (with_verifier world0)"

definition answers_ok :: "request \<Rightarrow> (string \<rightharpoonup> jsval) outcome" where
  "answers_ok rq = Resolved (Response 200 token_body)"

definition url1 :: string where
  "url1 = ''https://idp.example/oauth2/authorize?response_type=code&client_id=a%26b%3Dc&scope=profile+openid&redirect_uri=https%3A%2F%2Fapp.example%2Fin&code_challenge_method=S256&code_challenge=KysrKysrKysrKysrKysrKysrKysrKysrKysrKysrKys''"

section \<open>Verified properties\<close>

subsection \<open>Auxiliary facts\<close>

lemmas fixture_defs = world0_def layer0_def config0_def no_endpoints_def signed_out_def
  blank_redirects_def update_layer_def

lemmas blank_eval = falsy_or_blank_def blank_def trim_def is_space_def

lemma show_int_204: "show_int 204 = ''204''"
  by (simp add: show_int_def show_nat.simps)

lemma blank_Nil [simp]: "blank []"
  by (simp add: blank_def)

lemma dataLayers_update_layer [simp]:
  "dataLayers (update_layer dl f w) = (dataLayers w)(dl := f (dataLayers w dl))"
  by (simp add: update_layer_def)

lemma httpsClient_update_layer [simp]: "httpsClient (update_layer dl f w) = httpsClient w"
  by (simp add: update_layer_def)

lemma network_update_layer [simp]: "network (update_layer dl f w) = network w"
  by (simp add: update_layer_def)

lemma dataLayers_getInstance [simp]: "dataLayers (snd (getInstance dl w)) = dataLayers w"
  by (simp add: getInstance_def Let_def split: option.splits)

lemma network_getInstance [simp]: "network (snd (getInstance dl w)) = network w"
  by (simp add: getInstance_def Let_def split: option.splits)

lemma dataLayers_issue [simp]: "dataLayers (snd (issue net rq w)) = dataLayers w"
  by (simp add: issue_def)

lemma network_issue [simp]: "network (snd (issue net rq w)) = network w @ [rq]"
  by (simp add: issue_def)

lemma fst_issue [simp]:
  "fst (issue net rq w) = (case net rq of Resolved r \<Rightarrow> Inr r | Rejected e \<Rightarrow> Inl e)"
  by (simp add: issue_def)



lemma promise_then_simps [simp]:
  "promise_then (Inl e, w) f = (Inl e, w)"
  "promise_then (Inr v, w) f = f v w"
  by (simp_all add: promise_then_def)

lemma promise_catch_simps [simp]:
  "promise_catch (Inl e, w) g = g e w"
  "promise_catch (Inr v, w) g = (Inr v, w)"
  by (simp_all add: promise_catch_def)

lemma issue_Resolved:
  "net rq = Resolved r \<Longrightarrow> issue net rq w = (Inr r, w\<lparr>network := network w @ [rq]\<rparr>)"
  by (simp add: issue_def)

lemma issue_Rejected:
  "net rq = Rejected e \<Longrightarrow> issue net rq w = (Inl e, w\<lparr>network := network w @ [rq]\<rparr>)"
  by (simp add: issue_def)

lemma resolveFallbackEndpoints_frame [simp]:
  "resolveFallbackEndpoints suffixes dl (w\<lparr>network := n\<rparr>) = resolveFallbackEndpoints suffixes dl w"
  "resolveFallbackEndpoints suffixes dl (snd (getInstance dl' w)) = resolveFallbackEndpoints suffixes dl w"
  by (simp_all add: resolveFallbackEndpoints_def getConfigData_def)

lemma split_on_no_sep: "c \<notin> set t \<Longrightarrow> split_on c t = [t]"
  by (induction t) auto

lemma split_on_first: "c \<notin> set h \<Longrightarrow> split_on c (h @ c # rest) = h # split_on c rest"
  by (induction h) auto

lemma split_on_not_Nil [simp]: "split_on c t \<noteq> []"
  by (induction t) (auto split: list.splits)

lemma element_second_segment:
  "c \<notin> set h \<Longrightarrow> c \<notin> set m \<Longrightarrow> element (split_on c (h @ c # m @ c # rest)) (Suc 0) = Some m"
  by (cases "split_on c rest") (simp_all add: split_on_first element_def)

lemma element_no_sep: "c \<notin> set t \<Longrightarrow> element (split_on c t) (Suc 0) = None"
  by (simp add: split_on_no_sep element_def)

lemma lenient_decode_examples:
  "lenient_decode ''e30'' = ''{}''"
  "lenient_decode ''e$30'' = ''{}''"
  "lenient_decode ''eA'' = ''x''"
  "lenient_decode ''$$'' = []"
  by (simp_all add: lenient_decode_def List.map_filter_simps unbase64_def b64url_alphabet_def
      char_of_def bit_Suc_0_iff)

lemma searchParams_append_simps [simp]:
  "searchParams (searchParams_append n v u) = searchParams u @ [(n, v)]"
  "url_base (searchParams_append n v u) = url_base u"
  "url_fragment (searchParams_append n v u) = url_fragment u"
  by (simp_all add: searchParams_append_def)

lemma append_customParams_extends:
  "append_customParams cs u = Inr u' \<Longrightarrow>
   \<exists>extra. searchParams u' = searchParams u @ extra
     \<and> url_base u' = url_base u \<and> url_fragment u' = url_fragment u"
proof (induction cs arbitrary: u)
  case Nil
  then show ?case by simp
next
  case (Cons a cs)
  obtain key v where a: "a = (key, v)" by (cases a)
  show ?case
  proof (cases "key \<noteq> [] \<and> \<not> loose_eq_empty v")
    case True
    with Cons.prems a obtain s where s: "value_toString v = Inr s"
      and r: "append_customParams cs (searchParams_append key s u) = Inr u'"
      by (auto split: sum.splits)
    from Cons.IH [OF r] show ?thesis by auto
  next
    case False
    with Cons.prems a have "append_customParams cs u = Inr u'" by auto
    from Cons.IH [OF this] show ?thesis .
  qed
qed

lemma present_SomeD: "present x = Some s \<Longrightarrow> x = Some s \<and> \<not> blank s"
  by (cases x) (auto simp: present_def falsy_or_blank_def split: if_splits)

lemma scope_step:
  "(case sc of
      Some xs \<Rightarrow>
        if length xs > 0
        then (if OIDC_SCOPE \<notin> set xs
              then (join '' '' (xs @ [OIDC_SCOPE]), push_scope dl (xs @ [OIDC_SCOPE]) w)
              else (join '' '' xs, w))
        else (OIDC_SCOPE, w)
    | None \<Rightarrow> (OIDC_SCOPE, w))
   = (scope_value sc,
      case sc of
        Some xs \<Rightarrow> if xs \<noteq> [] \<and> OIDC_SCOPE \<notin> set xs then push_scope dl (xs @ [OIDC_SCOPE]) w else w
      | None \<Rightarrow> w)"
  by (simp add: scope_value_def split: option.splits)

lemma opt_step:
  "(case x of Some m \<Rightarrow> if m \<noteq> [] then searchParams_append k m u else u | None \<Rightarrow> u)
   = u\<lparr>searchParams := searchParams u @ opt_param k x\<rparr>"
  by (simp add: opt_param_def searchParams_append_def split: option.splits)

lemma pkce_step:
  "(if b then (searchParams_append k2 v2 (searchParams_append k1 v1 u), w') else (u, w))
   = (u\<lparr>searchParams := searchParams u @ (if b then [(k1, v1), (k2, v2)] else [])\<rparr>,
      if b then w' else w)"
  by (simp add: searchParams_append_def)

lemma authorizeRequest_parsed:
  assumes "present (oidcProviderMetaData (dataLayers w dl) AUTHORIZATION_ENDPOINT) = Some ep"
    and "new_URL P ep = Some u0"
  shows "authorizeRequest P ent dl config w =
     (case config of
        None \<Rightarrow> Inr (u0\<lparr>searchParams := searchParams u0
                          @ own_params P ent (configData (dataLayers w dl))\<rparr>)
      | Some cs \<Rightarrow> append_customParams cs
                     (u0\<lparr>searchParams := searchParams u0
                          @ own_params P ent (configData (dataLayers w dl))\<rparr>),
      stored_after ent dl w)"
  using assms
  by (cases config)
     (simp_all add: authorizeRequest_def getOIDCProviderMetaDataParameter_def getConfigData_def
        Let_def scope_step opt_step pkce_step own_params_def stored_after_def scope_pushed_def
        searchParams_append_def)


lemma authorizeRequest_unparsed:
  assumes "present (oidcProviderMetaData (dataLayers w dl) AUTHORIZATION_ENDPOINT) = None
           \<or> (\<exists>ep. present (oidcProviderMetaData (dataLayers w dl) AUTHORIZATION_ENDPOINT) = Some ep
                 \<and> new_URL P ep = None)"
  shows "\<exists>e. authorizeRequest P ent dl config w = (Inl e, w)"
  using assms
  by (auto simp: authorizeRequest_def getOIDCProviderMetaDataParameter_def Let_def)

lemma authorizeRequest_result:
  assumes "authorizeRequest P ent dl config w = (Inr u, w')"
  shows "\<exists>ep u0 extra.
           oidcProviderMetaData (dataLayers w dl) AUTHORIZATION_ENDPOINT = Some ep
         \<and> \<not> blank ep \<and> new_URL P ep = Some u0
         \<and> url_base u = url_base u0 \<and> url_fragment u = url_fragment u0
         \<and> searchParams u
             = searchParams u0 @ own_params P ent (configData (dataLayers w dl)) @ extra
         \<and> w' = stored_after ent dl w"
proof -
  from assms obtain ep where ep: "present (oidcProviderMetaData (dataLayers w dl) AUTHORIZATION_ENDPOINT) = Some ep"
    using authorizeRequest_unparsed [of w dl P ent config]
    by (cases "present (oidcProviderMetaData (dataLayers w dl) AUTHORIZATION_ENDPOINT)") auto
  from assms ep obtain u0 where u0: "new_URL P ep = Some u0"
    using authorizeRequest_unparsed [of w dl P ent config]
    by (cases "new_URL P ep") auto
  let ?u7 = "u0\<lparr>searchParams := searchParams u0 @ own_params P ent (configData (dataLayers w dl))\<rparr>"
  note r = authorizeRequest_parsed [OF ep u0, of ent config]
  show ?thesis
  proof (cases config)
    case None
    with r assms have "u = ?u7" and "w' = stored_after ent dl w" by simp_all
    with ep u0 show ?thesis by (auto dest: present_SomeD)
  next
    case (Some cs)
    with r assms have "append_customParams cs ?u7 = Inr u" and "w' = stored_after ent dl w"
      by simp_all
    from append_customParams_extends [OF this(1)] this(2) ep u0 show ?thesis
      by (auto dest: present_SomeD)
  qed
qed

lemma scope_value_pushed:
  "sc \<noteq> [] \<Longrightarrow> OIDC_SCOPE \<notin> set sc \<Longrightarrow>
   scope_value (Some (sc @ [OIDC_SCOPE])) = scope_value (Some sc)"
  by (simp add: scope_value_def)

lemma stored_after_frame:
  "oidcProviderMetaData (dataLayers (stored_after ent dl w) dl)
     = oidcProviderMetaData (dataLayers w dl)"
  "scope_value (scope (configData (dataLayers (stored_after ent dl w) dl)))
     = scope_value (scope (configData (dataLayers w dl)))"
  by (auto simp: stored_after_def scope_pushed_def push_scope_def setTemporaryDataParameter_def
        scope_value_pushed split: option.splits)










lemma join_append:
  "join sep (xs @ ys) =
     (if xs = [] then join sep ys else if ys = [] then join sep xs
      else join sep xs @ sep @ join sep ys)"
  by (induction sep xs rule: join.induct) (auto simp: neq_Nil_conv)

lemma join_two_inside:
  "\<exists>pre post. join sep (xs @ a # b # ys) = pre @ a @ sep @ b @ post"
proof -
  obtain post where p: "join sep (a # b # ys) = a @ sep @ b @ post"
    by (cases ys) auto
  show ?thesis
  proof (cases xs)
    case Nil
    with p have "join sep (xs @ a # b # ys) = [] @ a @ sep @ b @ post" by simp
    then show ?thesis by blast
  next
    case (Cons x xs')
    then have "join sep (xs @ a # b # ys) = join sep xs @ sep @ join sep (a # b # ys)"
      using join_append [of sep xs "a # b # ys"] by simp
    with p have "join sep (xs @ a # b # ys) = (join sep xs @ sep) @ a @ sep @ b @ post"
      by simp
    then show ?thesis by blast
  qed
qed



lemma getAuthorizationURL_Inr:
  "getAuthorizationURL P ent dl config w = (Inr url, w') \<Longrightarrow>
   \<exists>u. authorizeRequest P ent dl config w = (Inr u, w') \<and> url = URL_toString u"
  by (cases "authorizeRequest P ent dl config w")
     (auto simp: getAuthorizationURL_def promise_then_def split: sum.splits)

lemma snd_getAuthorizationURL:
  "snd (getAuthorizationURL P ent dl config w) = snd (authorizeRequest P ent dl config w)"
  by (cases "authorizeRequest P ent dl config w")
     (auto simp: getAuthorizationURL_def promise_then_def split: sum.splits)

lemma authorizeRequest_frame:
  "oidcProviderMetaData (dataLayers (snd (authorizeRequest P ent dl config w)) dl)
     = oidcProviderMetaData (dataLayers w dl)
   \<and> scope_value (scope (configData (dataLayers (snd (authorizeRequest P ent dl config w)) dl)))
     = scope_value (scope (configData (dataLayers w dl)))"
proof (cases "present (oidcProviderMetaData (dataLayers w dl) AUTHORIZATION_ENDPOINT)")
  case None
  with authorizeRequest_unparsed [of w dl P ent config] show ?thesis by auto
next
  case (Some ep)
  show ?thesis
  proof (cases "new_URL P ep")
    case None
    with Some authorizeRequest_unparsed [of w dl P ent config] show ?thesis by auto
  next
    case (Some u0)
    from authorizeRequest_parsed [OF \<open>present _ = Some ep\<close> Some, of ent config]
    show ?thesis by (simp add: stored_after_frame)
  qed
qed

lemma form_encode_literals:
  "form_encode ''code_challenge_method'' = ''code_challenge_method''"
  "form_encode ''code_challenge'' = ''code_challenge''"
  "form_encode ''S256'' = ''S256''"
  "form_encode ''response_type'' = ''response_type''"
  "form_encode ''code'' = ''code''"
  "form_encode ''client_id'' = ''client_id''"
  "form_encode ''scope'' = ''scope''"
  "form_encode ''redirect_uri'' = ''redirect_uri''"
  "form_encode ''profile openid'' = ''profile+openid''"
  by (simp_all add: form_encode_def form_encode_char_def form_unreserved_def)

lemma URL_toString_two_inside:
  assumes "searchParams u = xs @ (n1, v1) # (n2, v2) # ys"
  shows "\<exists>pre post. URL_toString u
           = pre @ (form_encode n1 @ ''='' @ form_encode v1) @ ''&''
                 @ (form_encode n2 @ ''='' @ form_encode v2) @ post"
proof -
  let ?enc = "\<lambda>(n, v). form_encode n @ ''='' @ form_encode v"
  from join_two_inside [of "''&''" "map ?enc xs" "?enc (n1, v1)" "?enc (n2, v2)" "map ?enc ys"]
  obtain pre post where
    "join ''&'' (map ?enc xs @ ?enc (n1, v1) # ?enc (n2, v2) # map ?enc ys)
       = pre @ ?enc (n1, v1) @ ''&'' @ ?enc (n2, v2) @ post"
    by blast
  with assms have "URL_toString u
     = (url_base u @ ''?'' @ pre) @ (form_encode n1 @ ''='' @ form_encode v1) @ ''&''
         @ (form_encode n2 @ ''='' @ form_encode v2) @ (post @ url_fragment u)"
    by (simp add: URL_toString_def form_serialize_def)
  then show ?thesis by blast
qed

lemma getAuthorizationURLs_scope:
  "Inr url \<in> set (fst (getAuthorizationURLs P dl calls w)) \<Longrightarrow>
   \<exists>u ep u0 cid ruri rest. url = URL_toString u
     \<and> oidcProviderMetaData (dataLayers w dl) AUTHORIZATION_ENDPOINT = Some ep
     \<and> new_URL P ep = Some u0
     \<and> searchParams u = (searchParams u0 @ [(''response_type'', ''code''), (''client_id'', cid)])
          @ (''scope'', scope_value (scope (configData (dataLayers w dl))))
          # (''redirect_uri'', ruri) # rest"
proof (induction calls arbitrary: w)
  case Nil
  then show ?case by simp
next
  case (Cons c calls)
  obtain ent config where c: "c = (ent, config)" by (cases c)
  obtain r w' where step: "getAuthorizationURL P ent dl config w = (r, w')"
    by (cases "getAuthorizationURL P ent dl config w")
  obtain rs w'' where tail: "getAuthorizationURLs P dl calls w' = (rs, w'')"
    by (cases "getAuthorizationURLs P dl calls w'")
  from Cons.prems c step tail have "r = Inr url \<or> Inr url \<in> set rs" by auto
  then show ?case
  proof
    assume "r = Inr url"
    with step obtain u where u: "authorizeRequest P ent dl config w = (Inr u, w')"
      and url: "url = URL_toString u"
      using getAuthorizationURL_Inr by blast
    from authorizeRequest_result [OF u] obtain ep u0 extra where
      "oidcProviderMetaData (dataLayers w dl) AUTHORIZATION_ENDPOINT = Some ep"
      "new_URL P ep = Some u0"
      "searchParams u = searchParams u0 @ own_params P ent (configData (dataLayers w dl)) @ extra"
      by blast
    with url show ?thesis by (auto simp: own_params_def)
  next
    assume "Inr url \<in> set rs"
    with tail have "Inr url \<in> set (fst (getAuthorizationURLs P dl calls w'))" by simp
    from Cons.IH [OF this] obtain u ep u0 cid ruri rest where
      a: "url = URL_toString u"
      "oidcProviderMetaData (dataLayers w' dl) AUTHORIZATION_ENDPOINT = Some ep"
      "new_URL P ep = Some u0"
      "searchParams u = (searchParams u0 @ [(''response_type'', ''code''), (''client_id'', cid)])
          @ (''scope'', scope_value (scope (configData (dataLayers w' dl))))
          # (''redirect_uri'', ruri) # rest"
      by blast
    from step have "w' = snd (authorizeRequest P ent dl config w)"
      using snd_getAuthorizationURL [of P ent dl config w] by simp
    with authorizeRequest_frame [of P ent dl config w]
    have "oidcProviderMetaData (dataLayers w' dl) = oidcProviderMetaData (dataLayers w dl)"
      and "scope_value (scope (configData (dataLayers w' dl)))
             = scope_value (scope (configData (dataLayers w dl)))"
      by simp_all
    with a show ?thesis by auto
  qed
qed

lemma scope_value_profile: "scope_value (Some [''profile'']) = ''profile openid''"
  by (simp add: scope_value_def OIDC_SCOPE_def)

text \<open>The example platform evaluated on the example world.\<close>

lemma rep32: "replicate 32 x = [x,x,x,x,x,x,x,x,x,x,x,x,x,x,x,x,x,x,x,x,x,x,x,x,x,x,x,x,x,x,x,x]"
  by (simp add: eval_nat_numeral)

lemma b1: "base64url_encode (replicate 32 171) = ''q6urq6urq6urq6urq6urq6urq6urq6urq6urq6urq6s''"
  by (simp add: rep32 sextet_def b64url_alphabet_def Let_def)

lemma verifier0: "base64URLEncode (Buffer (randombytes entropy0 32)) = ''q6urq6urq6urq6urq6urq6urq6urq6urq6urq6urq6s''"
  by (simp add: entropy0_def base64URLEncode_def replace_all_def b1)

lemma b2: "base64url_encode (replicate 32 43) = ''KysrKysrKysrKysrKysrKysrKysrKysrKysrKysrKys''"
  by (simp add: rep32 sextet_def b64url_alphabet_def Let_def)

lemma challenge0:
  "getCodeChallenge length_hash ''q6urq6urq6urq6urq6urq6urq6urq6urq6urq6urq6s''
     = ''KysrKysrKysrKysrKysrKysrKysrKysrKysrKysrKys''"
  by (simp add: getCodeChallenge_def length_hash_def utf8_encode_def utf8_char_def
        base64URLEncode_def replace_all_def b2)

lemma first_url:
  "fst (getAuthorizationURL platform0 entropy0 0 None world0) =
     Inr ''https://idp.example/oauth2/authorize?response_type=code&client_id=client&scope=profile+openid&redirect_uri=https%3A%2F%2Fapp.example%2Fin&code_challenge_method=S256&code_challenge=KysrKysrKysrKysrKysrKysrKysrKysrKysrKysrKys''"
proof -
  have ep: "present (oidcProviderMetaData (dataLayers world0 0) AUTHORIZATION_ENDPOINT)
              = Some ''https://idp.example/oauth2/authorize''"
    by (simp add: fixture_defs present_def blank_eval AUTHORIZATION_ENDPOINT_def)
  have u0: "new_URL platform0 ''https://idp.example/oauth2/authorize''
              = Some \<lparr>url_base = ''https://idp.example/oauth2/authorize'', searchParams = [],
                      url_fragment = []\<rparr>"
    by (simp add: platform0_def simple_URL_def)
  have ps: "own_params platform0 entropy0 (configData (dataLayers world0 0)) =
      [(''response_type'', ''code''), (''client_id'', ''client''), (''scope'', ''profile openid''),
       (''redirect_uri'', ''https://app.example/in''), (''code_challenge_method'', ''S256''),
       (''code_challenge'', ''KysrKysrKysrKysrKysrKysrKysrKysrKysrKysrKys'')]"
    by (simp add: own_params_def fixture_defs opt_param_def scope_value_def OIDC_SCOPE_def
          platform0_def verifier0 challenge0)
  show ?thesis
    by (simp add: getAuthorizationURL_def authorizeRequest_parsed [OF ep u0] ps URL_toString_def
          form_serialize_def form_encode_def form_encode_char_def form_unreserved_def
          utf8_char_def percent_byte_def hex_digit_def)
qed



lemma ep0: "present (oidcProviderMetaData (dataLayers world0 0) AUTHORIZATION_ENDPOINT)
              = Some ''https://idp.example/oauth2/authorize''"
  by (simp add: fixture_defs present_def blank_eval AUTHORIZATION_ENDPOINT_def)

lemma parsed0: "new_URL platform0 ''https://idp.example/oauth2/authorize''
              = Some \<lparr>url_base = ''https://idp.example/oauth2/authorize'', searchParams = [],
                      url_fragment = []\<rparr>"
  by (simp add: platform0_def simple_URL_def)

lemma after0: "snd (getAuthorizationURL platform0 entropy0 0 None world0) = stored_after entropy0 0 world0"
  by (simp add: snd_getAuthorizationURL authorizeRequest_parsed [OF ep0 parsed0])

lemma config1:
  "configData (dataLayers (stored_after entropy0 0 world0) 0)
     = config0\<lparr>scope := Some [''profile'', ''openid'']\<rparr>"
  by (simp add: stored_after_def scope_pushed_def push_scope_def setTemporaryDataParameter_def
        fixture_defs OIDC_SCOPE_def)

lemma second_url:
  "fst (getAuthorizationURL platform0 entropy0 0 None (stored_after entropy0 0 world0)) = Inr url0"
proof -
  have ep: "present (oidcProviderMetaData (dataLayers (stored_after entropy0 0 world0) 0)
              AUTHORIZATION_ENDPOINT) = Some ''https://idp.example/oauth2/authorize''"
    by (simp add: stored_after_frame ep0)
  have ps: "own_params platform0 entropy0 (configData (dataLayers (stored_after entropy0 0 world0) 0)) =
      [(''response_type'', ''code''), (''client_id'', ''client''), (''scope'', ''profile openid''),
       (''redirect_uri'', ''https://app.example/in''), (''code_challenge_method'', ''S256''),
       (''code_challenge'', ''KysrKysrKysrKysrKysrKysrKysrKysrKysrKysrKys'')]"
    by (simp add: config1 own_params_def config0_def opt_param_def scope_value_def OIDC_SCOPE_def
          platform0_def verifier0 challenge0)
  show ?thesis
    by (simp add: getAuthorizationURL_def authorizeRequest_parsed [OF ep parsed0] ps URL_toString_def
          form_serialize_def form_encode_def form_encode_char_def form_unreserved_def
          utf8_char_def percent_byte_def hex_digit_def url0_def)
qed

lemma urls0:
  "fst (getAuthorizationURLs platform0 0 [(entropy0, None), (entropy0, None)] world0)
     = [Inr url0, Inr url0]"
  using first_url second_url after0
  by (simp add: case_prod_unfold url0_def)

lemma network_promise_then_issue:
  assumes "\<And>r w. network (snd (f r w)) = network w"
  shows "network (snd (promise_then (issue net rq w) f)) = network w @ [rq]"
proof (cases "net rq")
  case (Resolved r)
  with assms [of r "w\<lparr>network := network w @ [rq]\<rparr>"] show ?thesis
    by (simp add: issue_Resolved)
next
  case (Rejected e)
  then show ?thesis by (simp add: issue_Rejected)
qed

lemma network_handleTokenResponse [simp]:
  "network (snd (handleTokenResponse dl r w)) = network w"
  by (simp add: handleTokenResponse_def setSessionData_def)

lemma network_promise_catch_wrap:
  "network (snd (promise_catch p (\<lambda>e w. (h e, w)))) = network (snd p)"
  by (cases p) (auto simp: promise_catch_def split: sum.splits)

lemma requestAccessToken_body:
  assumes "\<not> falsy_or_blank (oidcProviderMetaData (dataLayers w dl) ''token_endpoint'')"
  shows "map req_data (network (snd (requestAccessToken net dl code st w)))
      = map req_data (network w)
        @ [Some (''client_id='' @ clientID (configData (dataLayers w dl))
                 @ (case present (clientSecret (configData (dataLayers w dl))) of
                      Some s \<Rightarrow> ''&client_secret='' @ s | None \<Rightarrow> [])
                 @ ''&code='' @ code
                 @ ''&grant_type=authorization_code''
                 @ ''&redirect_uri='' @ signInRedirectURL (configData (dataLayers w dl))
                 @ (if enablePKCE (configData (dataLayers w dl))
                    then ''&code_verifier=''
                         @ template (temporaryData (dataLayers w dl) PKCE_CODE_VERIFIER)
                    else []))]"
proof -
  from assms obtain ep where
    ep: "present (oidcProviderMetaData (dataLayers w dl) ''token_endpoint'') = Some ep"
    by (cases "oidcProviderMetaData (dataLayers w dl) ''token_endpoint''")
       (auto simp: present_def falsy_or_blank_def)
  show ?thesis
    using ep
    by (simp add: requestAccessToken_def getOIDCProviderMetaData_stored_def getConfigData_def
          Let_def case_prod_unfold axios_post_def network_promise_then_issue
          network_promise_catch_wrap getTemporaryDataParameter_def
          setSessionDataParameter_def removeTemporaryDataParameter_def
          split: option.splits)
qed


lemma refreshAccessToken_body:
  assumes "truthy (sessionData (dataLayers w dl) ''refresh_token'')"
    and "\<not> falsy_or_blank (oidcProviderMetaData (dataLayers w dl) ''token_endpoint'')"
  shows "map req_data (network (snd (refreshAccessToken net dl w)))
      = map req_data (network w)
        @ [Some (''client_id='' @ clientID (configData (dataLayers w dl))
                 @ ''&refresh_token='' @ template (sessionData (dataLayers w dl) ''refresh_token'')
                 @ ''&grant_type=refresh_token''
                 @ (case present (clientSecret (configData (dataLayers w dl))) of
                      Some s \<Rightarrow> ''&client_secret='' @ s | None \<Rightarrow> []))]"
proof -
  from assms(2) obtain ep where
    ep: "present (oidcProviderMetaData (dataLayers w dl) ''token_endpoint'') = Some ep"
    by (cases "oidcProviderMetaData (dataLayers w dl) ''token_endpoint''")
       (auto simp: present_def falsy_or_blank_def)
  show ?thesis
    using ep assms(1)
    by (simp add: refreshAccessToken_def getOIDCProviderMetaData_stored_def getConfigData_def
          getSessionData_def Let_def case_prod_unfold axios_post_def network_promise_then_issue
          network_promise_catch_wrap split: option.splits)
qed

lemma revokeAccessToken_body:
  assumes "\<not> falsy_or_blank (oidcProviderMetaData (dataLayers w dl) ''revocation_endpoint'')"
  shows "map req_data (network (snd (revokeAccessToken net dl w)))
      = map req_data (network w)
        @ [Some (''client_id='' @ clientID (configData (dataLayers w dl))
                 @ ''&token='' @ template (sessionData (dataLayers w dl) ''access_token'')
                 @ ''&token_type_hint=access_token'')]"
proof -
  from assms obtain ep where
    ep: "present (oidcProviderMetaData (dataLayers w dl) ''revocation_endpoint'') = Some ep"
    by (cases "oidcProviderMetaData (dataLayers w dl) ''revocation_endpoint''")
       (auto simp: present_def falsy_or_blank_def)
  show ?thesis
    using ep
    by (simp add: revokeAccessToken_def getOIDCProviderMetaData_stored_def getConfigData_def
          getSessionData_def Let_def case_prod_unfold axios_post_def network_promise_then_issue
          network_promise_catch_wrap clearUserSessionData_def setSessionData_def)
qed

lemma hex_digit_chars: "hex_digit n \<in> set ''0123456789ABCDEF''"
proof -
  have "n mod 16 < length ''0123456789ABCDEF''" by simp
  then show ?thesis unfolding hex_digit_def by (rule nth_mem)
qed

lemma form_encode_char_chars:
  "set (form_encode_char c) \<subseteq> set (''+%0123456789ABCDEF'' @ form_unreserved)"
proof -
  have "set (percent_byte b) \<subseteq> set (''+%0123456789ABCDEF'' @ form_unreserved)" for b
    using hex_digit_chars [of "unat b div 16"] hex_digit_chars [of "unat b"]
    by (auto simp: percent_byte_def)
  then have "set (concat (map percent_byte bs)) \<subseteq> set (''+%0123456789ABCDEF'' @ form_unreserved)"
    for bs by (induction bs) auto
  then show ?thesis by (auto simp: form_encode_char_def)
qed

lemma form_encode_chars:
  "set (form_encode v) \<subseteq> set (''+%0123456789ABCDEF'' @ form_unreserved)"
  using form_encode_char_chars by (induction v) (auto simp: form_encode_def)

lemma form_encode_no_separator:
  "CHR ''&'' \<notin> set (form_encode v) \<and> CHR ''='' \<notin> set (form_encode v)"
proof -
  have "CHR ''&'' \<notin> set (''+%0123456789ABCDEF'' @ form_unreserved)"
    and "CHR ''='' \<notin> set (''+%0123456789ABCDEF'' @ form_unreserved)"
    by (simp_all add: form_unreserved_def)
  with form_encode_chars [of v] show ?thesis by blast
qed

lemma getAuthorizationURL_client_id:
  assumes "getAuthorizationURL P ent dl config w = (Inr url, w')"
  shows "\<exists>pre post. url = pre @ ''response_type=code&client_id=''
                          @ form_encode (clientID (configData (dataLayers w dl))) @ post"
proof -
  from assms obtain u where u: "authorizeRequest P ent dl config w = (Inr u, w')"
    and url: "url = URL_toString u"
    using getAuthorizationURL_Inr by blast
  from authorizeRequest_result [OF u] obtain ep u0 extra where
    "oidcProviderMetaData (dataLayers w dl) AUTHORIZATION_ENDPOINT = Some ep"
    "new_URL P ep = Some u0"
    "searchParams u = searchParams u0 @ own_params P ent (configData (dataLayers w dl)) @ extra"
    by blast
  from this(3) have "\<exists>ys. searchParams u = searchParams u0 @ (''response_type'', ''code'')
      # (''client_id'', clientID (configData (dataLayers w dl))) # ys"
    by (simp add: own_params_def)
  then obtain ys where "searchParams u = searchParams u0 @ (''response_type'', ''code'')
      # (''client_id'', clientID (configData (dataLayers w dl))) # ys" ..
  from URL_toString_two_inside [OF this] obtain pre post where
    "URL_toString u = pre @ (form_encode ''response_type'' @ ''='' @ form_encode ''code'') @ ''&''
        @ (form_encode ''client_id'' @ ''=''
           @ form_encode (clientID (configData (dataLayers w dl)))) @ post"
    by blast
  then have "url = pre @ ''response_type=code&client_id=''
                @ form_encode (clientID (configData (dataLayers w dl))) @ post"
    by (simp add: url form_encode_literals)
  then show ?thesis by blast
qed

lemmas world1_defs = world1_def reserved_credentials_def with_verifier_def
  setTemporaryDataParameter_def fixture_defs

lemma reserved_url:
  "fst (getAuthorizationURL platform0 entropy0 0 None world1) = Inr url1"
proof -
  have ep: "present (oidcProviderMetaData (dataLayers world1 0) AUTHORIZATION_ENDPOINT)
              = Some ''https://idp.example/oauth2/authorize''"
    by (simp add: world1_defs present_def blank_eval AUTHORIZATION_ENDPOINT_def)
  have ps: "own_params platform0 entropy0 (configData (dataLayers world1 0)) =
      [(''response_type'', ''code''), (''client_id'', ''a&b=c''), (''scope'', ''profile openid''),
       (''redirect_uri'', ''https://app.example/in''), (''code_challenge_method'', ''S256''),
       (''code_challenge'', ''KysrKysrKysrKysrKysrKysrKysrKysrKysrKysrKys'')]"
    by (simp add: world1_defs own_params_def opt_param_def scope_value_def OIDC_SCOPE_def
          platform0_def verifier0 challenge0)
  show ?thesis
    by (simp add: getAuthorizationURL_def authorizeRequest_parsed [OF ep parsed0] ps URL_toString_def
          form_serialize_def form_encode_def form_encode_char_def form_unreserved_def
          utf8_char_def percent_byte_def hex_digit_def url1_def)
qed

subsection \<open>The sign-out URL\<close>

text \<open>
  Claim C8. \<open>getSignOutURL\<close> requires a non-blank end-session endpoint, a non-blank
  stored ID token and a non-blank callback URL, which is the sign-out redirect URL when
  that is defined and the sign-in redirect URL otherwise. A missing endpoint raises
  AUTH_CORE-GSOU-NF01, a missing ID token AUTH_CORE-GSOU-NF02 and a missing callback URL
  AUTH_CORE-GSOU-NF03; when all three are there, the result is exactly
  \<open>endpoint?id_token_hint=token&post_logout_redirect_uri=callback&state=marker\<close>,
  and a URL is returned in no other case.
\<close>

theorem getSignOutURL_contract:
  "(let e = oidcProviderMetaData (dataLayers w dl) ''end_session_endpoint'';
        t = sessionData (dataLayers w dl) ''id_token'';
        cfg = configData (dataLayers w dl);
        cb = (case signOutRedirectURL cfg of Some u \<Rightarrow> u | None \<Rightarrow> signInRedirectURL cfg);
        r = getSignOutURL marker dl w
    in (falsy_or_blank e \<longrightarrow>
          (\<exists>m d. r = Inl (AsgardeoAuthException ''AUTH_CORE-GSOU-NF01'' ''authentication-core''
                             ''getSignOutURL'' m d Undefined)))
     \<and> (\<not> falsy_or_blank e \<and> (\<not> truthy t \<or> (\<exists>s. t = Some (JStr s) \<and> blank s)) \<longrightarrow>
          (\<exists>m d. r = Inl (AsgardeoAuthException ''AUTH_CORE-GSOU-NF02'' ''authentication-core''
                             ''getSignOutURL'' m d Undefined)))
     \<and> (\<not> falsy_or_blank e \<and> (\<exists>s. t = Some (JStr s) \<and> \<not> blank s) \<and> blank cb \<longrightarrow>
          (\<exists>m d. r = Inl (AsgardeoAuthException ''AUTH_CORE-GSOU-NF03'' ''authentication-core''
                             ''getSignOutURL'' m d Undefined)))
     \<and> (\<forall>ep s. e = Some ep \<and> \<not> blank ep \<and> t = Some (JStr s) \<and> \<not> blank s \<and> \<not> blank cb \<longrightarrow>
          r = Inr (ep @ ''?id_token_hint='' @ s @ ''&post_logout_redirect_uri='' @ cb
                   @ ''&state='' @ marker))
     \<and> (\<forall>url. r = Inr url \<longrightarrow>
          \<not> falsy_or_blank e \<and> (\<exists>s. t = Some (JStr s) \<and> \<not> blank s) \<and> \<not> blank cb))"
  unfolding Let_def
proof (intro conjI impI allI)
  assume "falsy_or_blank (oidcProviderMetaData (dataLayers w dl) ''end_session_endpoint'')"
  then show "\<exists>m d. getSignOutURL marker dl w =
      Inl (AsgardeoAuthException ''AUTH_CORE-GSOU-NF01'' ''authentication-core''
             ''getSignOutURL'' m d Undefined)"
    by (simp add: getSignOutURL_def present_def getOIDCProviderMetaData_stored_def)
next
  assume "\<not> falsy_or_blank (oidcProviderMetaData (dataLayers w dl) ''end_session_endpoint'') \<and>
    (\<not> truthy (sessionData (dataLayers w dl) ''id_token'') \<or>
     (\<exists>s. sessionData (dataLayers w dl) ''id_token'' = Some (JStr s) \<and> blank s))"
  then show "\<exists>m d. getSignOutURL marker dl w =
      Inl (AsgardeoAuthException ''AUTH_CORE-GSOU-NF02'' ''authentication-core''
             ''getSignOutURL'' m d Undefined)"
    by (auto simp: getSignOutURL_def present_def getOIDCProviderMetaData_stored_def
          getSessionData_def Let_def falsy_or_blank_def split: option.splits jsval.splits)
next
  assume "\<not> falsy_or_blank (oidcProviderMetaData (dataLayers w dl) ''end_session_endpoint'') \<and>
    (\<exists>s. sessionData (dataLayers w dl) ''id_token'' = Some (JStr s) \<and> \<not> blank s) \<and>
    blank (case signOutRedirectURL (configData (dataLayers w dl)) of
             Some u \<Rightarrow> u | None \<Rightarrow> signInRedirectURL (configData (dataLayers w dl)))"
  then show "\<exists>m d. getSignOutURL marker dl w =
      Inl (AsgardeoAuthException ''AUTH_CORE-GSOU-NF03'' ''authentication-core''
             ''getSignOutURL'' m d Undefined)"
    by (auto simp: getSignOutURL_def present_def getOIDCProviderMetaData_stored_def
          getSessionData_def getConfigData_def Let_def falsy_or_blank_def
          split: option.splits jsval.splits)
next
  fix ep s
  assume "oidcProviderMetaData (dataLayers w dl) ''end_session_endpoint'' = Some ep \<and> \<not> blank ep \<and>
    sessionData (dataLayers w dl) ''id_token'' = Some (JStr s) \<and> \<not> blank s \<and>
    \<not> blank (case signOutRedirectURL (configData (dataLayers w dl)) of
               Some u \<Rightarrow> u | None \<Rightarrow> signInRedirectURL (configData (dataLayers w dl)))"
  then show "getSignOutURL marker dl w =
      Inr (ep @ ''?id_token_hint='' @ s @ ''&post_logout_redirect_uri=''
           @ (case signOutRedirectURL (configData (dataLayers w dl)) of
                Some u \<Rightarrow> u | None \<Rightarrow> signInRedirectURL (configData (dataLayers w dl)))
           @ ''&state='' @ marker)"
    by (simp add: getSignOutURL_def present_def getOIDCProviderMetaData_stored_def
          getSessionData_def getConfigData_def Let_def falsy_or_blank_def)
next
  fix url
  assume r: "getSignOutURL marker dl w = Inr url"
  then show "\<not> falsy_or_blank (oidcProviderMetaData (dataLayers w dl) ''end_session_endpoint'')"
    by (auto simp: getSignOutURL_def present_def getOIDCProviderMetaData_stored_def
          split: option.splits if_splits)
  from r show "\<exists>s. sessionData (dataLayers w dl) ''id_token'' = Some (JStr s) \<and> \<not> blank s"
    by (auto simp: getSignOutURL_def present_def getOIDCProviderMetaData_stored_def
          getSessionData_def Let_def split: option.splits jsval.splits if_splits)
  from r show "\<not> blank (case signOutRedirectURL (configData (dataLayers w dl)) of
               Some u \<Rightarrow> u | None \<Rightarrow> signInRedirectURL (configData (dataLayers w dl)))"
    by (auto simp: getSignOutURL_def present_def getOIDCProviderMetaData_stored_def
          getSessionData_def getConfigData_def Let_def split: option.splits jsval.splits if_splits)
qed



theorem getSignOutURL_contract_witness:
  "(\<exists>m d. getSignOutURL ''ok'' 0 (no_endpoints world0) =
      Inl (AsgardeoAuthException ''AUTH_CORE-GSOU-NF01'' ''authentication-core'' ''getSignOutURL'' m d Undefined))
   \<and> (\<exists>m d. getSignOutURL ''ok'' 0 (signed_out world0) =
      Inl (AsgardeoAuthException ''AUTH_CORE-GSOU-NF02'' ''authentication-core'' ''getSignOutURL'' m d Undefined))
   \<and> (\<exists>m d. getSignOutURL ''ok'' 0 (blank_redirects world0) =
      Inl (AsgardeoAuthException ''AUTH_CORE-GSOU-NF03'' ''authentication-core'' ''getSignOutURL'' m d Undefined))
   \<and> getSignOutURL ''ok'' 0 world0 =
      Inr ''https://idp.example/oidc/logout?id_token_hint=ID&post_logout_redirect_uri=https://app.example/in&state=ok''"
proof (intro conjI)
  show "\<exists>m d. getSignOutURL ''ok'' 0 (no_endpoints world0) =
      Inl (AsgardeoAuthException ''AUTH_CORE-GSOU-NF01'' ''authentication-core'' ''getSignOutURL'' m d Undefined)"
    using getSignOutURL_contract [of "no_endpoints world0" 0 "''ok''"]
    by (simp add: Let_def fixture_defs blank_eval)
  show "\<exists>m d. getSignOutURL ''ok'' 0 (signed_out world0) =
      Inl (AsgardeoAuthException ''AUTH_CORE-GSOU-NF02'' ''authentication-core'' ''getSignOutURL'' m d Undefined)"
    using getSignOutURL_contract [of "signed_out world0" 0 "''ok''"]
    by (simp add: Let_def fixture_defs blank_eval)
  show "\<exists>m d. getSignOutURL ''ok'' 0 (blank_redirects world0) =
      Inl (AsgardeoAuthException ''AUTH_CORE-GSOU-NF03'' ''authentication-core'' ''getSignOutURL'' m d Undefined)"
    using getSignOutURL_contract [of "blank_redirects world0" 0 "''ok''"]
    by (simp add: Let_def fixture_defs blank_eval)
  show "getSignOutURL ''ok'' 0 world0 =
      Inr ''https://idp.example/oidc/logout?id_token_hint=ID&post_logout_redirect_uri=https://app.example/in&state=ok''"
    using getSignOutURL_contract [of world0 0 "''ok''"]
    by (simp add: Let_def fixture_defs blank_eval)
qed

subsection \<open>Token refresh without a refresh token\<close>

text \<open>
  Claim C6. When the stored session has no refresh token (none, or a falsy one),
  \<open>refreshAccessToken\<close> rejects with AUTH_CORE-RAT2-NF01 and leaves the world as it
  was: no request is added to the network and nothing is written to session or
  temporary data.
\<close>

theorem refreshAccessToken_without_refresh_token:
  "\<not> truthy (sessionData (dataLayers w dl) ''refresh_token'') \<Longrightarrow>
   (\<exists>m d. refreshAccessToken net dl w =
      (Inl (AsgardeoAuthException ''AUTH_CORE-RAT2-NF01'' ''authentication-core''
              ''refreshAccessToken'' m d Undefined), w))"
  by (simp add: refreshAccessToken_def getSessionData_def Let_def)

theorem refreshAccessToken_without_refresh_token_witness:
  "\<not> truthy (sessionData (dataLayers world0 0) ''refresh_token'')
   \<and> (\<exists>m d. refreshAccessToken (\<lambda>_. Resolved (Response 200 Map.empty)) 0 world0 =
      (Inl (AsgardeoAuthException ''AUTH_CORE-RAT2-NF01'' ''authentication-core''
              ''refreshAccessToken'' m d Undefined), world0))"
proof -
  have h: "\<not> truthy (sessionData (dataLayers world0 0) ''refresh_token'')"
    by (simp add: fixture_defs)
  show ?thesis
    using h refreshAccessToken_without_refresh_token [OF h, of "\<lambda>_. Resolved (Response 200 Map.empty)"]
    by simp
qed

subsection \<open>Revocation answered with a status other than 200\<close>

text \<open>
  Claim C4. A revocation response with status 204 leaves the session data unchanged,
  but the rejection that reaches the caller is the network exception AUTH_CORE-RAT3-NR03:
  the \<open>catch\<close> chained after the \<open>then\<close> receives the invalid-response exception
  AUTH_CORE-RAT3-NR02 and wraps it.
\<close>

theorem revokeAccessToken_status_204:
  "fst (revokeAccessToken no_content 0 world0) =
     Inl (AsgardeoAuthNetworkException ''AUTH_CORE-RAT3-NR03'' ''authentication-core''
            ''revokeAccessToken'' ''The request to revoke access token failed.''
            ''The request sent to revoke the access token failed.''
            (AsgardeoAuthException ''AUTH_CORE-RAT3-NR02'' ''authentication-core''
               ''revokeAccessToken''
               (Some ''Invalid response status received for revoke access token request.'')
               (Text ''The request sent to revoke the access token returned 204 , which is invalid.'')
               Undefined))
   \<and> sessionData (dataLayers (snd (revokeAccessToken no_content 0 world0)) 0)
       = sessionData (dataLayers world0 0)"
  by (simp add: revokeAccessToken_def getOIDCProviderMetaData_stored_def getConfigData_def
        getSessionData_def present_def blank_eval fixture_defs Let_def getInstance_def
        axios_post_def issue_def promise_then_def promise_catch_def show_int_204
        getTokenRequestHeaders_def no_content_def)


text \<open>
  More generally, whenever \<open>revokeAccessToken\<close> rejects, the session data are
  unchanged and the rejection is the network exception AUTH_CORE-RAT3-NR03 or the
  missing-endpoint exception AUTH_CORE-RAT3-NF01, never AUTH_CORE-RAT3-NR02 itself.
\<close>

lemma revokeAccessToken_rejections:
  assumes "fst (revokeAccessToken net dl w) = Inl e"
  shows "sessionData (dataLayers (snd (revokeAccessToken net dl w)) dl) = sessionData (dataLayers w dl)
    \<and> ((\<exists>cause. e = AsgardeoAuthNetworkException ''AUTH_CORE-RAT3-NR03'' ''authentication-core''
                      ''revokeAccessToken'' ''The request to revoke access token failed.''
                      ''The request sent to revoke the access token failed.'' cause)
       \<or> (\<exists>m d. e = AsgardeoAuthException ''AUTH_CORE-RAT3-NF01'' ''authentication-core''
                      ''revokeAccessToken'' m d Undefined))"
proof (cases "present (oidcProviderMetaData (dataLayers w dl) ''revocation_endpoint'')")
  case None
  with assms show ?thesis
    by (auto simp: revokeAccessToken_def getOIDCProviderMetaData_stored_def Let_def)
next
  case (Some ep)
  let ?cfg = "configData (dataLayers w dl)"
  let ?rq = "\<lparr>req_method = ''POST'', req_url = ep,
      req_data = Some (join ''&'' [''client_id='' @ clientID ?cfg,
                  ''token='' @ template (sessionData (dataLayers w dl) ''access_token''),
                  ''token_type_hint=access_token'']),
      req_headers = getTokenRequestHeaders, req_withCredentials = sendCookiesInRequests ?cfg,
      req_client = fst (getInstance dl w)\<rparr>"
  show ?thesis
  proof (cases "net ?rq")
    case (Resolved r)
    with Some assms show ?thesis
      by (cases "status r = 200")
         (auto simp: revokeAccessToken_def getOIDCProviderMetaData_stored_def getConfigData_def
            getSessionData_def Let_def case_prod_unfold axios_post_def issue_Resolved)
  next
    case (Rejected x)
    with Some assms show ?thesis
      by (auto simp: revokeAccessToken_def getOIDCProviderMetaData_stored_def getConfigData_def
            getSessionData_def Let_def case_prod_unfold axios_post_def issue_Rejected)
  qed
qed


subsection \<open>Token exchange\<close>



subsection \<open>Provider metadata\<close>





subsection \<open>The transport client is shared by the whole process\<close>

text \<open>
  Claim C7, as stated, fails: of two contexts with distinct data layers, the second to
  ask receives the client that the first one created, configured with the first
  context's certificate and cookie policy and not with its own.
\<close>

theorem getInstance_second_context_counterexample:
  "fst (getInstance 1 (snd (getInstance 0 two_contexts)))
     = \<lparr>client_dataLayer = 0, httpsAgent = Some ''CA-A'', axios_withCredentials = True\<rparr>
   \<and> certificate (getConfigData 1 two_contexts) = Some ''CA-B''
   \<and> sendCookiesInRequests (getConfigData 1 two_contexts) = False
   \<and> \<not> configured_from (fst (getInstance 1 (snd (getInstance 0 two_contexts))))
         (getConfigData 1 two_contexts)"
  by (simp add: getInstance_def getConfigData_def two_contexts_def configured_from_def Let_def
        fixture_defs)

text \<open>
  Claim C7, amended. The transport client is a single instance per process: the first
  call of \<open>getInstance\<close> creates it from the calling context's configuration (TLS trust
  anchor and cookie policy), an existing instance is returned as it is, and every later
  call, from the same or from any other data layer, returns that same instance and
  changes nothing.
\<close>

theorem getInstance_process_wide:
  "(httpsClient w = None \<longrightarrow>
      configured_from (fst (getInstance d1 w)) (getConfigData d1 w)
      \<and> client_dataLayer (fst (getInstance d1 w)) = d1)
   \<and> (\<forall>c. httpsClient w = Some c \<longrightarrow> getInstance d1 w = (c, w))
   \<and> getInstance d2 (snd (getInstance d1 w)) = getInstance d1 w"
  by (auto simp: getInstance_def getConfigData_def configured_from_def Let_def
        split: option.splits)

theorem getInstance_process_wide_witness:
  "httpsClient two_contexts = None
   \<and> configured_from (fst (getInstance 0 two_contexts)) (getConfigData 0 two_contexts)
   \<and> client_dataLayer (fst (getInstance 0 two_contexts)) = 0
   \<and> httpsClient (snd (getInstance 0 two_contexts)) = Some (fst (getInstance 0 two_contexts))
   \<and> getInstance 1 (snd (getInstance 0 two_contexts)) = getInstance 0 two_contexts
   \<and> getInstance 0 (snd (getInstance 0 two_contexts)) = getInstance 0 two_contexts"
proof -
  have h: "httpsClient two_contexts = None"
    by (simp add: two_contexts_def)
  have s: "httpsClient (snd (getInstance 0 two_contexts)) = Some (fst (getInstance 0 two_contexts))"
    by (simp add: getInstance_def h Let_def)
  show ?thesis
    using h s getInstance_process_wide [of two_contexts 0 1]
      getInstance_process_wide [of two_contexts 0 0]
    by simp
qed

subsection \<open>Decoding an ID token\<close>

text \<open>
  Claim C9, as stated, fails: a middle segment that is not valid base64url is not
  rejected. The second segment of \<open>h.e$30.sig\<close> is \<open>e$30\<close>, which is not valid
  base64url; the decoder skips the \<open>$\<close> and yields \<open>{}\<close>, and \<open>decodeIDToken\<close>
  returns the empty claim map instead of failing with the decoding error.
\<close>

theorem decodeIDToken_invalid_base64url_counterexample:
  "element (split_on CHR ''.'' ''h.e$30.sig'') 1 = Some ''e$30''
   \<and> \<not> valid_base64url ''e$30''
   \<and> lenient_decode ''e$30'' = ''{}''
   \<and> decodeIDToken lenient_decode parse_stub (Some ''h.e$30.sig'') = Inr []"
  by (simp add: decodeIDToken_def element_def valid_base64url_def b64url_alphabet_def
      lenient_decode_examples parse_stub_def)

text \<open>
  Claim C9, amended. For every token, \<open>undefined\<close> included, and whatever the decoder
  and the JSON parser compute, \<open>decodeIDToken\<close> returns a payload or throws the decoding
  exception CRYPTO_UTIL-DIT-IV01 and nothing else. It throws it, around a type error,
  when the token is \<open>undefined\<close> and when the token has no dot, hence no middle segment;
  it throws it, around the parser's error, when the decoded middle segment is not JSON.
  In every other case, the middle segment being valid base64url or not, it returns what
  the parser returns for the decoded middle segment. The signature segment has no
  influence on the result.
\<close>

theorem decodeIDToken_outcomes:
  "((\<exists>payload. decodeIDToken dec parse tok = Inr payload)
      \<or> (\<exists>cause. decodeIDToken dec parse tok = Inl (decoding_error cause)))
   \<and> (tok = None \<longrightarrow>
         decodeIDToken dec parse tok
           = Inl (decoding_error
                    (TypeError ''Cannot read properties of undefined (reading split)'')))
   \<and> (\<forall>t. tok = Some t \<and> CHR ''.'' \<notin> set t \<longrightarrow>
         decodeIDToken dec parse tok
           = Inl (decoding_error
                    (TypeError ''Cannot read properties of undefined (reading toString)'')))
   \<and> (\<forall>t seg e. tok = Some t \<and> element (split_on CHR ''.'' t) 1 = Some seg
         \<and> parse (dec seg) = Inl e \<longrightarrow>
         decodeIDToken dec parse tok = Inl (decoding_error e))
   \<and> (\<forall>t seg claims. tok = Some t \<and> element (split_on CHR ''.'' t) 1 = Some seg
         \<and> parse (dec seg) = Inr claims \<longrightarrow>
         decodeIDToken dec parse tok = Inr claims)
   \<and> (\<forall>h m sig sig'. CHR ''.'' \<notin> set h \<and> CHR ''.'' \<notin> set m \<longrightarrow>
         decodeIDToken dec parse (Some (h @ ''.'' @ m @ ''.'' @ sig))
           = decodeIDToken dec parse (Some (h @ ''.'' @ m @ ''.'' @ sig')))"
proof (intro conjI allI impI)
  show "(\<exists>payload. decodeIDToken dec parse tok = Inr payload)
      \<or> (\<exists>cause. decodeIDToken dec parse tok = Inl (decoding_error cause))"
    by (auto simp: decodeIDToken_def decoding_error_def split: option.splits sum.splits)
next
  assume "tok = None"
  then show "decodeIDToken dec parse tok
      = Inl (decoding_error (TypeError ''Cannot read properties of undefined (reading split)''))"
    by (simp add: decodeIDToken_def decoding_error_def)
next
  fix t
  assume "tok = Some t \<and> CHR ''.'' \<notin> set t"
  then show "decodeIDToken dec parse tok
      = Inl (decoding_error
               (TypeError ''Cannot read properties of undefined (reading toString)''))"
    by (simp add: decodeIDToken_def decoding_error_def element_no_sep)
next
  fix t seg e
  assume "tok = Some t \<and> element (split_on CHR ''.'' t) 1 = Some seg \<and> parse (dec seg) = Inl e"
  then show "decodeIDToken dec parse tok = Inl (decoding_error e)"
    by (simp add: decodeIDToken_def decoding_error_def)
next
  fix t seg claims
  assume "tok = Some t \<and> element (split_on CHR ''.'' t) 1 = Some seg
    \<and> parse (dec seg) = Inr claims"
  then show "decodeIDToken dec parse tok = Inr claims"
    by (simp add: decodeIDToken_def)
next
  fix h m sig sig'
  assume "CHR ''.'' \<notin> set h \<and> CHR ''.'' \<notin> set m"
  then show "decodeIDToken dec parse (Some (h @ ''.'' @ m @ ''.'' @ sig))
           = decodeIDToken dec parse (Some (h @ ''.'' @ m @ ''.'' @ sig'))"
    by (simp add: decodeIDToken_def element_second_segment)
qed

theorem decodeIDToken_outcomes_witness:
  "decodeIDToken lenient_decode parse_stub (Some ''h.e30.sig'') = Inr []
   \<and> decodeIDToken lenient_decode parse_stub (Some ''h.eA.sig'')
       = Inl (decoding_error (SyntaxError ''Unexpected token''))
   \<and> decodeIDToken lenient_decode parse_stub (Some ''h.$$.sig'')
       = Inl (decoding_error (SyntaxError ''Unexpected token''))
   \<and> decodeIDToken lenient_decode parse_stub (Some ''nodots'')
       = Inl (decoding_error (TypeError ''Cannot read properties of undefined (reading toString)''))
   \<and> decodeIDToken lenient_decode parse_stub None
       = Inl (decoding_error (TypeError ''Cannot read properties of undefined (reading split)''))
   \<and> decodeIDToken lenient_decode parse_stub (Some ''h.e30.sig'')
       = decodeIDToken lenient_decode parse_stub (Some ''h.e30.forged'')"
proof (intro conjI)
  have seg: "element (split_on CHR ''.'' ''h.e30.sig'') 1 = Some ''e30''"
    "element (split_on CHR ''.'' ''h.eA.sig'') 1 = Some ''eA''"
    "element (split_on CHR ''.'' ''h.$$.sig'') 1 = Some ''$$''"
    by (simp_all add: element_def)
  show "decodeIDToken lenient_decode parse_stub (Some ''h.e30.sig'') = Inr []"
    using decodeIDToken_outcomes [of lenient_decode parse_stub "Some ''h.e30.sig''"] seg
    by (simp add: lenient_decode_examples parse_stub_def)
  show "decodeIDToken lenient_decode parse_stub (Some ''h.eA.sig'')
       = Inl (decoding_error (SyntaxError ''Unexpected token''))"
    using decodeIDToken_outcomes [of lenient_decode parse_stub "Some ''h.eA.sig''"] seg
    by (simp add: lenient_decode_examples parse_stub_def)
  show "decodeIDToken lenient_decode parse_stub (Some ''h.$$.sig'')
       = Inl (decoding_error (SyntaxError ''Unexpected token''))"
    using decodeIDToken_outcomes [of lenient_decode parse_stub "Some ''h.$$.sig''"] seg
    by (simp add: lenient_decode_examples parse_stub_def)
  show "decodeIDToken lenient_decode parse_stub (Some ''nodots'')
       = Inl (decoding_error (TypeError ''Cannot read properties of undefined (reading toString)''))"
    using decodeIDToken_outcomes [of lenient_decode parse_stub "Some ''nodots''"]
    by simp
  show "decodeIDToken lenient_decode parse_stub None
       = Inl (decoding_error (TypeError ''Cannot read properties of undefined (reading split)''))"
    using decodeIDToken_outcomes [of lenient_decode parse_stub None]
    by simp
  have "\<forall>h m sig sig'. CHR ''.'' \<notin> set h \<and> CHR ''.'' \<notin> set m \<longrightarrow>
         decodeIDToken lenient_decode parse_stub (Some (h @ ''.'' @ m @ ''.'' @ sig))
           = decodeIDToken lenient_decode parse_stub (Some (h @ ''.'' @ m @ ''.'' @ sig'))"
    using decodeIDToken_outcomes [of lenient_decode parse_stub None] by simp
  from this [rule_format, of "''h''" "''e30''" "''sig''" "''forged''"]
  show "decodeIDToken lenient_decode parse_stub (Some ''h.e30.sig'')
       = decodeIDToken lenient_decode parse_stub (Some ''h.e30.forged'')"
    by simp
qed


subsection \<open>The PKCE pair of the authorization URL\<close>








text \<open>
  A URL is returned whenever the authorization endpoint is there, is not blank and
  parses, and no caller parameter is \<open>null\<close>.
\<close>

lemma append_customParams_returns:
  "JNull \<notin> snd ` set cs \<Longrightarrow> \<exists>u'. append_customParams cs u = Inr u'"
proof (induction cs arbitrary: u)
  case Nil
  then show ?case by simp
next
  case (Cons a cs)
  obtain key v where a: "a = (key, v)" by (cases a)
  with Cons.prems have v: "v \<noteq> JNull" and rest: "JNull \<notin> snd ` set cs" by auto
  from v obtain s where "value_toString v = Inr s" by (cases v) auto
  with a Cons.IH [OF rest] show ?case by auto
qed

lemma getAuthorizationURL_returns:
  assumes "oidcProviderMetaData (dataLayers w dl) AUTHORIZATION_ENDPOINT = Some ep"
    and "\<not> blank ep" and "new_URL P ep = Some u0"
    and "case config of None \<Rightarrow> True | Some cs \<Rightarrow> JNull \<notin> snd ` set cs"
  shows "\<exists>url. getAuthorizationURL P ent dl config w = (Inr url, stored_after ent dl w)"
proof -
  from assms(1,2) have ep:
    "present (oidcProviderMetaData (dataLayers w dl) AUTHORIZATION_ENDPOINT) = Some ep"
    by (simp add: present_def falsy_or_blank_def)
  note r = authorizeRequest_parsed [OF ep assms(3), of ent config]
  show ?thesis
  proof (cases config)
    case None
    with r show ?thesis by (simp add: getAuthorizationURL_def)
  next
    case (Some cs)
    with assms(4) have "JNull \<notin> snd ` set cs" by simp
    from append_customParams_returns [OF this] obtain u' where
      "append_customParams cs
         (u0\<lparr>searchParams := searchParams u0 @ own_params P ent (configData (dataLayers w dl))\<rparr>)
       = Inr u'"
      by blast
    with r Some show ?thesis by (simp add: getAuthorizationURL_def)
  qed
qed

subsection \<open>The scope parameter over successive calls\<close>

text \<open>
  Claim C5. With the configured scope list \<open>["profile"]\<close>, every URL returned by
  any number of successive calls of \<open>getAuthorizationURL\<close> on the context carries
  the scope parameter \<open>profile openid\<close>, which lists \<open>profile\<close> and the mandatory
  scope once each, whether or not the data layer shares the configuration object that
  the first call extended.
\<close>

theorem scope_parameter_stable:
  assumes "scope (configData (dataLayers w dl)) = Some [''profile'']"
    and "Inr url \<in> set (fst (getAuthorizationURLs P dl calls w))"
  shows "(\<exists>pre post. url = pre @ ''scope=profile+openid&redirect_uri='' @ post)
     \<and> split_on CHR '' '' ''profile openid'' = [''profile'', OIDC_SCOPE]
     \<and> count_list (split_on CHR '' '' ''profile openid'') ''profile'' = 1
     \<and> count_list (split_on CHR '' '' ''profile openid'') OIDC_SCOPE = 1
     \<and> (\<exists>u. url = URL_toString u
          \<and> (''scope'', ''profile openid'') \<in> set (searchParams u)
          \<and> (\<forall>ep u0. oidcProviderMetaData (dataLayers w dl) AUTHORIZATION_ENDPOINT = Some ep
                 \<and> new_URL P ep = Some u0 \<and> searchParams_get ''scope'' u0 = None \<longrightarrow>
                 searchParams_get ''scope'' u = Some ''profile openid''))"
proof -
  from getAuthorizationURLs_scope [OF assms(2)] assms(1) obtain u ep u0 cid ruri rest where
    url: "url = URL_toString u"
    and ep: "oidcProviderMetaData (dataLayers w dl) AUTHORIZATION_ENDPOINT = Some ep"
    and u0: "new_URL P ep = Some u0"
    and shape: "searchParams u = (searchParams u0 @ [(''response_type'', ''code''), (''client_id'', cid)])
          @ (''scope'', ''profile openid'') # (''redirect_uri'', ruri) # rest"
    by (auto simp: scope_value_profile)
  have m: "(''scope'', ''profile openid'') \<in> set (searchParams u)"
    by (simp add: shape)
  have sp: "split_on CHR '' '' ''profile openid'' = [''profile'', OIDC_SCOPE]"
    by (simp add: OIDC_SCOPE_def)
  have c1: "count_list (split_on CHR '' '' ''profile openid'') ''profile'' = 1"
    and c2: "count_list (split_on CHR '' '' ''profile openid'') OIDC_SCOPE = 1"
    by (simp_all add: OIDC_SCOPE_def)
  from URL_toString_two_inside [OF shape] obtain pre post where
    "URL_toString u = pre @ (form_encode ''scope'' @ ''='' @ form_encode ''profile openid'')
        @ ''&'' @ (form_encode ''redirect_uri'' @ ''='' @ form_encode ruri) @ post"
    by blast
  then have "url = pre @ ''scope=profile+openid&redirect_uri='' @ (form_encode ruri @ post)"
    by (simp add: url form_encode_literals)
  then have in_text: "\<exists>pre post. url = pre @ ''scope=profile+openid&redirect_uri='' @ post"
    by blast
  have first: "\<forall>ep' u0'. oidcProviderMetaData (dataLayers w dl) AUTHORIZATION_ENDPOINT = Some ep'
            \<and> new_URL P ep' = Some u0' \<and> searchParams_get ''scope'' u0' = None \<longrightarrow>
            searchParams_get ''scope'' u = Some ''profile openid''"
  proof (intro allI impI)
    fix ep' u0'
    assume a: "oidcProviderMetaData (dataLayers w dl) AUTHORIZATION_ENDPOINT = Some ep'
            \<and> new_URL P ep' = Some u0' \<and> searchParams_get ''scope'' u0' = None"
    with ep u0 have "u0' = u0" by simp
    with a have "map_of (searchParams u0) ''scope'' = None"
      by (simp add: searchParams_get_def)
    then show "searchParams_get ''scope'' u = Some ''profile openid''"
      by (simp add: searchParams_get_def shape map_add_def)
  qed
  from url m first have obj: "\<exists>u. url = URL_toString u
          \<and> (''scope'', ''profile openid'') \<in> set (searchParams u)
          \<and> (\<forall>ep u0. oidcProviderMetaData (dataLayers w dl) AUTHORIZATION_ENDPOINT = Some ep
                 \<and> new_URL P ep = Some u0 \<and> searchParams_get ''scope'' u0 = None \<longrightarrow>
                 searchParams_get ''scope'' u = Some ''profile openid'')"
    by blast
  show ?thesis by (intro conjI in_text sp c1 c2 obj)
qed

theorem scope_parameter_stable_witness:
  "scope (configData (dataLayers world0 0)) = Some [''profile'']
   \<and> fst (getAuthorizationURLs platform0 0 [(entropy0, None), (entropy0, None)] world0)
       = [Inr url0, Inr url0]
   \<and> scope (configData (dataLayers (snd (getAuthorizationURL platform0 entropy0 0 None world0)) 0))
       = Some [''profile'', ''openid'']
   \<and> (\<exists>pre post. url0 = pre @ ''scope=profile+openid&redirect_uri='' @ post)"
proof -
  have h1: "scope (configData (dataLayers world0 0)) = Some [''profile'']"
    by (simp add: fixture_defs)
  have h2: "Inr url0 \<in> set (fst (getAuthorizationURLs platform0 0
              [(entropy0, None), (entropy0, None)] world0))"
    unfolding urls0 by simp
  have h3: "scope (configData (dataLayers (snd (getAuthorizationURL platform0 entropy0 0 None world0)) 0))
       = Some [''profile'', ''openid'']"
    by (simp add: after0 config1)
  note t = scope_parameter_stable [OF h1 h2, THEN conjunct1]
  show ?thesis by (intro conjI h1 urls0 h3 t)
qed


subsection \<open>Request bodies are not percent-encoded\<close>

text \<open>
  Claim C10. The bodies posted by \<open>requestAccessToken\<close>, \<open>refreshAccessToken\<close> and
  \<open>revokeAccessToken\<close> are the raw \<open>key=value\<close> strings joined with \<open>&\<close>: client
  ID, client secret, authorization code, code verifier, refresh token and access token
  stand in them verbatim, whatever characters they contain. In the authorization URL
  the client ID stands percent-encoded, and an encoded value contains neither \<open>&\<close>
  nor \<open>=\<close>.
\<close>

theorem token_request_bodies_raw:
  "(\<not> falsy_or_blank (oidcProviderMetaData (dataLayers w dl) ''token_endpoint'') \<longrightarrow>
      map req_data (network (snd (requestAccessToken net dl code st w)))
      = map req_data (network w)
        @ [Some (''client_id='' @ clientID (configData (dataLayers w dl))
                 @ (case present (clientSecret (configData (dataLayers w dl))) of
                      Some s \<Rightarrow> ''&client_secret='' @ s | None \<Rightarrow> [])
                 @ ''&code='' @ code
                 @ ''&grant_type=authorization_code''
                 @ ''&redirect_uri='' @ signInRedirectURL (configData (dataLayers w dl))
                 @ (if enablePKCE (configData (dataLayers w dl))
                    then ''&code_verifier=''
                         @ template (temporaryData (dataLayers w dl) PKCE_CODE_VERIFIER)
                    else []))])
   \<and> (truthy (sessionData (dataLayers w dl) ''refresh_token'')
       \<and> \<not> falsy_or_blank (oidcProviderMetaData (dataLayers w dl) ''token_endpoint'') \<longrightarrow>
      map req_data (network (snd (refreshAccessToken net dl w)))
      = map req_data (network w)
        @ [Some (''client_id='' @ clientID (configData (dataLayers w dl))
                 @ ''&refresh_token='' @ template (sessionData (dataLayers w dl) ''refresh_token'')
                 @ ''&grant_type=refresh_token''
                 @ (case present (clientSecret (configData (dataLayers w dl))) of
                      Some s \<Rightarrow> ''&client_secret='' @ s | None \<Rightarrow> []))])
   \<and> (\<not> falsy_or_blank (oidcProviderMetaData (dataLayers w dl) ''revocation_endpoint'') \<longrightarrow>
      map req_data (network (snd (revokeAccessToken net' dl w)))
      = map req_data (network w)
        @ [Some (''client_id='' @ clientID (configData (dataLayers w dl))
                 @ ''&token='' @ template (sessionData (dataLayers w dl) ''access_token'')
                 @ ''&token_type_hint=access_token'')])
   \<and> (\<forall>url w'. getAuthorizationURL P ent dl config w = (Inr url, w') \<longrightarrow>
        (\<exists>pre post. url = pre @ ''response_type=code&client_id=''
                          @ form_encode (clientID (configData (dataLayers w dl))) @ post))
   \<and> CHR ''&'' \<notin> set (form_encode v) \<and> CHR ''='' \<notin> set (form_encode v)"
  using requestAccessToken_body [of w dl net code st] refreshAccessToken_body [of w dl net]
    revokeAccessToken_body [of w dl net'] getAuthorizationURL_client_id [of P ent dl config w]
    form_encode_no_separator [of v]
  by (intro conjI impI allI) simp_all


theorem token_request_bodies_raw_witness:
  "\<not> falsy_or_blank (oidcProviderMetaData (dataLayers world1 0) ''token_endpoint'')
   \<and> truthy (sessionData (dataLayers world1 0) ''refresh_token'')
   \<and> \<not> falsy_or_blank (oidcProviderMetaData (dataLayers world1 0) ''revocation_endpoint'')
   \<and> map req_data (network (snd (requestAccessToken answers_ok 0 ''c&d=e'' [] world1)))
       = [Some ''client_id=a&b=c&client_secret=s=1&t&code=c&d=e&grant_type=authorization_code&redirect_uri=https://app.example/in&code_verifier=V'']
   \<and> map req_data (network (snd (refreshAccessToken answers_ok 0 world1)))
       = [Some ''client_id=a&b=c&refresh_token=R=2&y&grant_type=refresh_token&client_secret=s=1&t'']
   \<and> map req_data (network (snd (revokeAccessToken answers_ok 0 world1)))
       = [Some ''client_id=a&b=c&token=T&x=1&token_type_hint=access_token'']
   \<and> fst (getAuthorizationURL platform0 entropy0 0 None world1) = Inr url1
   \<and> (\<exists>pre post. url1 = pre @ ''response_type=code&client_id='' @ ''a%26b%3Dc'' @ post)"
proof -
  note inst = token_request_bodies_raw [where w = world1 and dl = 0 and net = answers_ok
      and net' = answers_ok and code = "''c&d=e''" and st = "[]" and P = platform0
      and ent = entropy0 and config = None and v = "''a&b=c''"]
  have h1: "\<not> falsy_or_blank (oidcProviderMetaData (dataLayers world1 0) ''token_endpoint'')"
    by (simp add: world1_defs blank_eval)
  have h2: "truthy (sessionData (dataLayers world1 0) ''refresh_token'')"
    by (simp add: world1_defs)
  have h3: "\<not> falsy_or_blank (oidcProviderMetaData (dataLayers world1 0) ''revocation_endpoint'')"
    by (simp add: world1_defs blank_eval)
  have secret: "present (clientSecret (configData (dataLayers world1 0))) = Some ''s=1&t''"
    by (simp add: world1_defs present_def blank_eval)
  have b1: "map req_data (network (snd (requestAccessToken answers_ok 0 ''c&d=e'' [] world1)))
       = [Some ''client_id=a&b=c&client_secret=s=1&t&code=c&d=e&grant_type=authorization_code&redirect_uri=https://app.example/in&code_verifier=V'']"
    using inst [THEN conjunct1, THEN mp, OF h1]
    by (simp add: secret) (simp add: world1_defs PKCE_CODE_VERIFIER_def)
  have b2: "map req_data (network (snd (refreshAccessToken answers_ok 0 world1)))
       = [Some ''client_id=a&b=c&refresh_token=R=2&y&grant_type=refresh_token&client_secret=s=1&t'']"
    using inst [THEN conjunct2, THEN conjunct1, THEN mp, OF conjI [OF h2 h1]]
    by (simp add: secret) (simp add: world1_defs)
  have b3: "map req_data (network (snd (revokeAccessToken answers_ok 0 world1)))
       = [Some ''client_id=a&b=c&token=T&x=1&token_type_hint=access_token'']"
    using inst [THEN conjunct2, THEN conjunct2, THEN conjunct1, THEN mp, OF h3]
    by (simp add: world1_defs)
  have r: "fst (getAuthorizationURL platform0 entropy0 0 None world1) = Inr url1"
    by (rule reserved_url)
  then have h4: "getAuthorizationURL platform0 entropy0 0 None world1 =
     (Inr url1, snd (getAuthorizationURL platform0 entropy0 0 None world1))"
    by (simp add: prod_eq_iff)
  have enc: "form_encode ''a&b=c'' = ''a%26b%3Dc''"
    by (simp add: form_encode_def form_encode_char_def form_unreserved_def utf8_char_def
          percent_byte_def hex_digit_def)
  have cid: "clientID (configData (dataLayers world1 0)) = ''a&b=c''"
    by (simp add: world1_defs)
  have t: "\<exists>pre post. url1 = pre @ ''response_type=code&client_id='' @ ''a%26b%3Dc'' @ post"
    using inst [THEN conjunct2, THEN conjunct2, THEN conjunct2, THEN conjunct1, rule_format, OF h4]
    by (simp only: cid enc)
  show ?thesis by (intro conjI h1 h2 h3 b1 b2 b3 r t)
qed



end
